theory Spec2Isabelle
  imports Main "HOL-Library.Word"
begin

unbundle bit_operations_syntax

section \<open>Machine types and kernel primitives used by the driver\<close>

type_synonym u8 = "8 word"
type_synonym u16 = "16 word"
type_synonym u32 = "32 word"
type_synonym s32 = "32 word"
type_synonym ulong = "64 word"

text \<open>
  The byte order of the host the driver runs on. \<open>ntohs\<close> and every plain load of a
  \<open>u16\<close> member of the packed configuration structure depend on it.
\<close>

datatype endian = LittleEndian | BigEndian

text \<open>C integer division truncates towards zero.\<close>

definition c_div :: "int \<Rightarrow> int \<Rightarrow> int" where
  "c_div a b = (if (a < 0) = (b < 0) then \<bar>a\<bar> div \<bar>b\<bar> else - (\<bar>a\<bar> div \<bar>b\<bar>))"

text \<open>
  The kernel macro \<open>DIV_ROUND_CLOSEST(x, divisor)\<close> at a signed type: add half the divisor
  when both have the same sign, subtract it otherwise, then divide. In the two unit
  conversions the operands are \<open>int\<close> and stay far inside its range, so the sum is exact.
\<close>

definition DIV_ROUND_CLOSEST :: "int \<Rightarrow> int \<Rightarrow> int" where
  "DIV_ROUND_CLOSEST x d =
     (if (x > 0) = (d > 0) then c_div (x + c_div d 2) d else c_div (x - c_div d 2) d)"

text \<open>
  In \<open>d5next_set_auto_temp\<close> the operand is the \<open>long\<close> that \<open>kstrtol\<close> parsed, which can be
  any value of that type. The sum and the difference are computed in \<open>long\<close> (64 bits,
  as \<open>unsigned long\<close> is taken here) and wrap around, as the kernel is built with wrapping
  signed arithmetic: within 5 of \<open>LONG_MAX\<close> or \<open>LONG_MIN\<close> the sign flips before the
  division.
\<close>

definition wrap_long :: "int \<Rightarrow> int" where
  "wrap_long k = sint (word_of_int k :: 64 word)"

definition DIV_ROUND_CLOSEST_long :: "int \<Rightarrow> int \<Rightarrow> int" where
  "DIV_ROUND_CLOSEST_long x d =
     (if (x > 0) = (d > 0) then c_div (wrap_long (x + c_div d 2)) d
      else c_div (wrap_long (x - c_div d 2)) d)"

text \<open>\<open>get_unaligned_be16(p)\<close> reads \<open>p[0]\<close> and \<open>p[1]\<close>: \<open>p[0] << 8 | p[1]\<close>.\<close>

definition get_unaligned_be16 :: "u8 \<Rightarrow> u8 \<Rightarrow> u16" where
  "get_unaligned_be16 p0 p1 = push_bit 8 (ucast p0) OR ucast p1"

definition get_unaligned_be32 :: "u8 \<Rightarrow> u8 \<Rightarrow> u8 \<Rightarrow> u8 \<Rightarrow> u32" where
  "get_unaligned_be32 p0 p1 p2 p3 =
     push_bit 24 (ucast p0) OR push_bit 16 (ucast p1) OR push_bit 8 (ucast p2) OR ucast p3"

text \<open>\<open>put_unaligned_be16(val, p)\<close> stores \<open>val >> 8\<close> at \<open>p[0]\<close> and \<open>val\<close> at \<open>p[1]\<close>.\<close>

definition put_unaligned_be16 :: "u16 \<Rightarrow> u8 list" where
  "put_unaligned_be16 v = [ucast (drop_bit 8 v), ucast v]"

text \<open>A plain load of a \<open>u16\<close> from two bytes of memory, in the byte order of the host.\<close>

definition load_u16 :: "endian \<Rightarrow> u8 \<Rightarrow> u8 \<Rightarrow> u16" where
  "load_u16 e p0 p1 =
     (case e of LittleEndian \<Rightarrow> push_bit 8 (ucast p1) OR ucast p0
              | BigEndian \<Rightarrow> push_bit 8 (ucast p0) OR ucast p1)"

definition swab16 :: "u16 \<Rightarrow> u16" where
  "swab16 x = push_bit 8 x OR drop_bit 8 x"

definition ntohs :: "endian \<Rightarrow> u16 \<Rightarrow> u16" where
  "ntohs e x = (case e of LittleEndian \<Rightarrow> swab16 x | BigEndian \<Rightarrow> x)"

section \<open>Unit conversion\<close>

definition d5next_percent_to_pwm :: "endian \<Rightarrow> u16 \<Rightarrow> int" where
  "d5next_percent_to_pwm e x = DIV_ROUND_CLOSEST (uint (ntohs e x) * 255) (100 * 100)"

definition d5next_pwm_to_percent :: "u8 \<Rightarrow> u16" where
  "d5next_pwm_to_percent x = word_of_int (DIV_ROUND_CLOSEST (uint x * 100 * 100) 255)"

text \<open>
  A percent value as it travels through a two-byte field of the configuration blob:
  stored with \<open>put_unaligned_be16\<close>, copied out as a host-order \<open>u16\<close>.
\<close>

definition stored_u16 :: "endian \<Rightarrow> u16 \<Rightarrow> u16" where
  "stored_u16 e v = load_u16 e (put_unaligned_be16 v ! 0) (put_unaligned_be16 v ! 1)"

section \<open>Constants of the driver\<close>

definition SENSOR_REPORT_ID :: nat where [simp]: "SENSOR_REPORT_ID = 0x01"
definition STATUS_REPORT_ID :: nat where [simp]: "STATUS_REPORT_ID = 0x03"
definition SECONDARY_STATUS_REPORT_ID :: nat where [simp]: "SECONDARY_STATUS_REPORT_ID = 0x02"

text \<open>
  \<open>STATUS_UPDATE_INTERVAL\<close> is \<open>2 * HZ\<close> jiffies. \<open>HZ\<close> is the tick rate the kernel was
  configured with; it is a parameter here.
\<close>

definition STATUS_UPDATE_INTERVAL :: "nat \<Rightarrow> ulong" where
  "STATUS_UPDATE_INTERVAL HZ = of_nat (2 * HZ)"

definition STATUS_REPORT_CHECKSUM_START :: nat where [simp]: "STATUS_REPORT_CHECKSUM_START = 0x01"
definition STATUS_REPORT_CHECKSUM_LENGTH :: nat where [simp]: "STATUS_REPORT_CHECKSUM_LENGTH = 0x326"

definition SERIAL_FIRST_PART :: nat where [simp]: "SERIAL_FIRST_PART = 0x3"
definition SERIAL_SECOND_PART :: nat where [simp]: "SERIAL_SECOND_PART = 0x5"
definition FIRMWARE_VERSION :: nat where [simp]: "FIRMWARE_VERSION = 0xD"
definition POWER_CYCLES :: nat where [simp]: "POWER_CYCLES = 0x18"
definition PLUS_5V_VOLTAGE :: nat where [simp]: "PLUS_5V_VOLTAGE = 0x39"
definition COOLANT_TEMP :: nat where [simp]: "COOLANT_TEMP = 0x57"
definition FAN_VOLTAGE :: nat where [simp]: "FAN_VOLTAGE = 0x61"
definition FAN_CURRENT :: nat where [simp]: "FAN_CURRENT = 0x63"
definition FAN_POWER :: nat where [simp]: "FAN_POWER = 0x65"
definition FAN_SPEED :: nat where [simp]: "FAN_SPEED = 0x67"
definition PUMP_VOLTAGE :: nat where [simp]: "PUMP_VOLTAGE = 0x6E"
definition PUMP_CURRENT :: nat where [simp]: "PUMP_CURRENT = 0x70"
definition PUMP_POWER :: nat where [simp]: "PUMP_POWER = 0x72"
definition PUMP_SPEED :: nat where [simp]: "PUMP_SPEED = 0x74"
definition FAN_SETPOINT :: nat where [simp]: "FAN_SETPOINT = 0x77"
definition PUMP_SETPOINT :: nat where [simp]: "PUMP_SETPOINT = 0x79"

definition NUM_CTRL_CURVE_POINTS :: nat where [simp]: "NUM_CTRL_CURVE_POINTS = 16"
definition IDX_MIN_PWM :: nat where [simp]: "IDX_MIN_PWM = NUM_CTRL_CURVE_POINTS + 2"
definition IDX_MAX_PWM :: nat where [simp]: "IDX_MAX_PWM = NUM_CTRL_CURVE_POINTS + 3"

text \<open>\<open>enum fan_control_mode\<close>, one byte in the packed structure.\<close>

definition FAN_CONTROL_MANUAL :: u8 where [simp]: "FAN_CONTROL_MANUAL = 0"
definition FAN_CONTROL_PID :: u8 where [simp]: "FAN_CONTROL_PID = 1"
definition FAN_CONTROL_CURVE :: u8 where [simp]: "FAN_CONTROL_CURVE = 2"

text \<open>\<open>enum d5next_ctrl_channel\<close> (internal) and \<open>enum d5next_ctrl_channel_userspace\<close>.\<close>

definition FAN_CONTROL_CHANNEL_FAN :: int where [simp]: "FAN_CONTROL_CHANNEL_FAN = 0"
definition FAN_CONTROL_CHANNEL_PUMP :: int where [simp]: "FAN_CONTROL_CHANNEL_PUMP = 1"
definition FAN_CONTROL_NUM_CHANNELS :: int where [simp]: "FAN_CONTROL_NUM_CHANNELS = 2"
definition USERSPACE_CHANNEL_PUMP :: int where [simp]: "USERSPACE_CHANNEL_PUMP = 0"
definition USERSPACE_CHANNEL_FAN :: int where [simp]: "USERSPACE_CHANNEL_FAN = 1"

text \<open>Error numbers of the kernel; the driver returns them negated.\<close>

definition ENOENT :: int where [simp]: "ENOENT = 2"
definition ENOMEM :: int where [simp]: "ENOMEM = 12"
definition EINVAL :: int where [simp]: "EINVAL = 22"
definition ENODATA :: int where [simp]: "ENODATA = 61"
definition EOPNOTSUPP :: int where [simp]: "EOPNOTSUPP = 95"

text \<open>
  The sensor types and attribute numbers of the hwmon core that the driver switches on
  (\<open>enum hwmon_sensor_types\<close>, \<open>enum hwmon_fan_attributes\<close>, \<open>enum hwmon_pwm_attributes\<close>).
\<close>

datatype hwmon_sensor_types =
    hwmon_chip | hwmon_temp | hwmon_in | hwmon_curr | hwmon_power | hwmon_energy
  | hwmon_humidity | hwmon_fan | hwmon_pwm | hwmon_intrusion

definition hwmon_fan_input :: nat where [simp]: "hwmon_fan_input = 1"
definition hwmon_fan_max :: nat where [simp]: "hwmon_fan_max = 4"
definition hwmon_pwm_input :: nat where [simp]: "hwmon_pwm_input = 0"
definition hwmon_pwm_enable :: nat where [simp]: "hwmon_pwm_enable = 1"

section \<open>Layout of the configuration blob\<close>

text \<open>
  \<open>struct d5next_control_data\<close> is packed: \<open>version\<close> (1 byte), \<open>padding\<close> (46), two
  \<open>struct fan_properties\<close> of 9 bytes (\<open>flags\<close>, \<open>min_pwm\<close>, \<open>max_pwm\<close>, \<open>fallback_pwm\<close>,
  \<open>max_speed\<close>), two \<open>struct fan_ctrl\<close> of 85 bytes (\<open>mode\<close> 1, \<open>manual_setpoint\<close> 2,
  \<open>source\<close> 2, \<open>pid\<close> 14, \<open>curve\<close>: \<open>start_temp\<close> 2, \<open>temps\<close> 32, \<open>powers\<close> 32),
  \<open>padding2\<close> (572) and \<open>crc\<close> (2): 809 bytes. A member is named by its byte offset.
\<close>

definition STATUS_REPORT_SIZE :: nat where [simp]: "STATUS_REPORT_SIZE = 809"

definition fan_properties_off :: "nat \<Rightarrow> nat" where
  "fan_properties_off channel = 47 + 9 * channel"

definition min_pwm_off :: "nat \<Rightarrow> nat" where
  "min_pwm_off channel = fan_properties_off channel + 1"

definition max_pwm_off :: "nat \<Rightarrow> nat" where
  "max_pwm_off channel = fan_properties_off channel + 3"

definition max_speed_off :: "nat \<Rightarrow> nat" where
  "max_speed_off channel = fan_properties_off channel + 7"

definition fan_ctrl_off :: "nat \<Rightarrow> nat" where
  "fan_ctrl_off channel = 65 + 85 * channel"

definition mode_off :: "nat \<Rightarrow> nat" where
  "mode_off channel = fan_ctrl_off channel"

definition manual_setpoint_off :: "nat \<Rightarrow> nat" where
  "manual_setpoint_off channel = fan_ctrl_off channel + 1"

definition start_temp_off :: "nat \<Rightarrow> nat" where
  "start_temp_off channel = fan_ctrl_off channel + 19"

text \<open>
  \<open>&curve.temps[idx]\<close> is plain pointer arithmetic: an index of 16 or more lands in
  \<open>powers\<close>, which follows \<open>temps\<close> in the structure.
\<close>

definition temps_off :: "nat \<Rightarrow> nat \<Rightarrow> nat" where
  "temps_off channel idx = fan_ctrl_off channel + 21 + 2 * idx"

definition powers_off :: "nat \<Rightarrow> nat \<Rightarrow> nat" where
  "powers_off channel idx = fan_ctrl_off channel + 53 + 2 * idx"

definition crc_off :: nat where
  "crc_off = 807"

section \<open>The kernel's CRC-16 routine\<close>

text \<open>
  \<open>crc16\<close> is the kernel's library routine (\<open>lib/crc16.c\<close>), not part of the driver. It is
  modelled as the kernel implements it: one lookup per byte in the constant table
  \<open>crc16_table\<close>, \<open>crc = (crc >> 8) ^ crc16_table[(crc ^ data) & 0xff]\<close>.
\<close>

definition crc16_table :: "u16 list" where
  "crc16_table =
    [
     0x0000, 0xC0C1, 0xC181, 0x0140, 0xC301, 0x03C0, 0x0280, 0xC241,
     0xC601, 0x06C0, 0x0780, 0xC741, 0x0500, 0xC5C1, 0xC481, 0x0440,
     0xCC01, 0x0CC0, 0x0D80, 0xCD41, 0x0F00, 0xCFC1, 0xCE81, 0x0E40,
     0x0A00, 0xCAC1, 0xCB81, 0x0B40, 0xC901, 0x09C0, 0x0880, 0xC841,
     0xD801, 0x18C0, 0x1980, 0xD941, 0x1B00, 0xDBC1, 0xDA81, 0x1A40,
     0x1E00, 0xDEC1, 0xDF81, 0x1F40, 0xDD01, 0x1DC0, 0x1C80, 0xDC41,
     0x1400, 0xD4C1, 0xD581, 0x1540, 0xD701, 0x17C0, 0x1680, 0xD641,
     0xD201, 0x12C0, 0x1380, 0xD341, 0x1100, 0xD1C1, 0xD081, 0x1040,
     0xF001, 0x30C0, 0x3180, 0xF141, 0x3300, 0xF3C1, 0xF281, 0x3240,
     0x3600, 0xF6C1, 0xF781, 0x3740, 0xF501, 0x35C0, 0x3480, 0xF441,
     0x3C00, 0xFCC1, 0xFD81, 0x3D40, 0xFF01, 0x3FC0, 0x3E80, 0xFE41,
     0xFA01, 0x3AC0, 0x3B80, 0xFB41, 0x3900, 0xF9C1, 0xF881, 0x3840,
     0x2800, 0xE8C1, 0xE981, 0x2940, 0xEB01, 0x2BC0, 0x2A80, 0xEA41,
     0xEE01, 0x2EC0, 0x2F80, 0xEF41, 0x2D00, 0xEDC1, 0xEC81, 0x2C40,
     0xE401, 0x24C0, 0x2580, 0xE541, 0x2700, 0xE7C1, 0xE681, 0x2640,
     0x2200, 0xE2C1, 0xE381, 0x2340, 0xE101, 0x21C0, 0x2080, 0xE041,
     0xA001, 0x60C0, 0x6180, 0xA141, 0x6300, 0xA3C1, 0xA281, 0x6240,
     0x6600, 0xA6C1, 0xA781, 0x6740, 0xA501, 0x65C0, 0x6480, 0xA441,
     0x6C00, 0xACC1, 0xAD81, 0x6D40, 0xAF01, 0x6FC0, 0x6E80, 0xAE41,
     0xAA01, 0x6AC0, 0x6B80, 0xAB41, 0x6900, 0xA9C1, 0xA881, 0x6840,
     0x7800, 0xB8C1, 0xB981, 0x7940, 0xBB01, 0x7BC0, 0x7A80, 0xBA41,
     0xBE01, 0x7EC0, 0x7F80, 0xBF41, 0x7D00, 0xBDC1, 0xBC81, 0x7C40,
     0xB401, 0x74C0, 0x7580, 0xB541, 0x7700, 0xB7C1, 0xB681, 0x7640,
     0x7200, 0xB2C1, 0xB381, 0x7340, 0xB101, 0x71C0, 0x7080, 0xB041,
     0x5000, 0x90C1, 0x9181, 0x5140, 0x9301, 0x53C0, 0x5280, 0x9241,
     0x9601, 0x56C0, 0x5780, 0x9741, 0x5500, 0x95C1, 0x9481, 0x5440,
     0x9C01, 0x5CC0, 0x5D80, 0x9D41, 0x5F00, 0x9FC1, 0x9E81, 0x5E40,
     0x5A00, 0x9AC1, 0x9B81, 0x5B40, 0x9901, 0x59C0, 0x5880, 0x9841,
     0x8801, 0x48C0, 0x4980, 0x8941, 0x4B00, 0x8BC1, 0x8A81, 0x4A40,
     0x4E00, 0x8EC1, 0x8F81, 0x4F40, 0x8D01, 0x4DC0, 0x4C80, 0x8C41,
     0x4400, 0x84C1, 0x8581, 0x4540, 0x8701, 0x47C0, 0x4680, 0x8641,
     0x8201, 0x42C0, 0x4380, 0x8341, 0x4100, 0x81C1, 0x8081, 0x4040]"

definition crc16_byte :: "u16 \<Rightarrow> u8 \<Rightarrow> u16" where
  "crc16_byte crc data = drop_bit 8 crc XOR crc16_table ! unat ((crc XOR ucast data) AND 0xff)"

definition crc16 :: "u16 \<Rightarrow> u8 list \<Rightarrow> u16" where
  "crc16 crc buf = foldl crc16_byte crc buf"

section \<open>Reference CRC-16/USB\<close>

text \<open>
  The reference the checksum is compared with, written from the parameters of
  CRC-16/USB and independent of the table: polynomial 0x8005 processed reflected (least
  significant bit first, so the constant is the bit-reversed polynomial 0xA001), initial
  value 0xFFFF, final XOR 0xFFFF. One step consumes one bit.
\<close>

definition crc16_usb_bit :: "u16 \<Rightarrow> u16" where
  "crc16_usb_bit c = (if bit c 0 then drop_bit 1 c XOR 0xA001 else drop_bit 1 c)"

definition crc16_usb_byte :: "u16 \<Rightarrow> u8 \<Rightarrow> u16" where
  "crc16_usb_byte c b =
     crc16_usb_bit (crc16_usb_bit (crc16_usb_bit (crc16_usb_bit
       (crc16_usb_bit (crc16_usb_bit (crc16_usb_bit (crc16_usb_bit (c XOR ucast b))))))))"

definition crc16_usb :: "u8 list \<Rightarrow> u16" where
  "crc16_usb bs = foldl crc16_usb_byte 0xFFFF bs XOR 0xFFFF"

text \<open>Walks a table and compares entry \<open>i\<close>, \<open>i + 1\<close>, ... with the bitwise computation.\<close>

fun table_ok :: "u16 list \<Rightarrow> u16 \<Rightarrow> bool" where
  "table_ok [] i = True"
| "table_ok (t # ts) i = (t = crc16_usb_byte i 0 \<and> table_ok ts (i + 1))"

text \<open>\<open>n\<close> bit steps in a row: what a run of zero bytes does to the CRC register.\<close>

fun crc16_usb_bits :: "nat \<Rightarrow> u16 \<Rightarrow> u16" where
  "crc16_usb_bits 0 c = c"
| "crc16_usb_bits (Suc n) c = crc16_usb_bits n (crc16_usb_bit c)"

section \<open>The HID transport\<close>

text \<open>
  \<open>hid_hw_raw_request\<close> belongs to the HID core. The device behind it is a record: the
  bytes it delivers for a \<open>GET_REPORT\<close> of the status report, the return value of each
  kind of request, and the trace of the requests issued so far (oldest first).
\<close>

datatype hid_request =
    GET_REPORT nat nat
  | SET_REPORT nat "u8 list"

record hid_device =
  get_data :: "u8 list"
  get_ret :: int
  set_ret :: int
  ack_ret :: int
  requests :: "hid_request list"

text \<open>
  A \<open>HID_REQ_GET_REPORT\<close> into a buffer: the delivered bytes overwrite the front of the
  buffer (at most its length), the rest of the buffer stays as it was.
\<close>

definition hid_hw_get_report :: "hid_device \<Rightarrow> nat \<Rightarrow> u8 list \<Rightarrow> int \<times> u8 list \<times> hid_device" where
  "hid_hw_get_report h reportnum buf =
     (get_ret h,
      take (length buf) (get_data h) @ drop (length (get_data h)) buf,
      h\<lparr>requests := requests h @ [GET_REPORT reportnum (length buf)]\<rparr>)"

definition hid_hw_set_report :: "hid_device \<Rightarrow> nat \<Rightarrow> u8 list \<Rightarrow> int \<times> hid_device" where
  "hid_hw_set_report h reportnum buf =
     (if reportnum = STATUS_REPORT_ID then set_ret h else ack_ret h,
      h\<lparr>requests := requests h @ [SET_REPORT reportnum buf]\<rparr>)"

text \<open>The configuration blobs that were sent to the device, oldest first.\<close>

fun status_uploads :: "hid_request list \<Rightarrow> u8 list list" where
  "status_uploads [] = []"
| "status_uploads (GET_REPORT reportnum len # rs) = status_uploads rs"
| "status_uploads (SET_REPORT reportnum buf # rs) =
     (if reportnum = STATUS_REPORT_ID then buf # status_uploads rs else status_uploads rs)"

section \<open>Driver state\<close>

text \<open>
  \<open>struct d5next_data\<close>. The members that only serve registration (\<open>hwmon_dev\<close>,
  \<open>debugfs\<close>, \<open>groups\<close>) and the mutex are left out; \<open>buffer\<close> is the 809-byte scratch copy
  of the configuration blob. The fixed-size arrays are lists of that size.
\<close>

record d5next_data =
  hdev :: hid_device
  buffer :: "u8 list"
  temp_input :: s32
  speed_input :: "u16 list"
  speed_setpoint :: "u16 list"
  power_input :: "u32 list"
  voltage_input :: "u16 list"
  current_input :: "u16 list"
  serial_number :: "u32 list"
  firmware_version :: u16
  power_cycles :: u32
  updated :: ulong

definition secondary_status_report :: "u8 list" where
  "secondary_status_report = [0x02, 0x00, 0x00, 0x00, 0x02, 0x00, 0x00, 0x00, 0x00, 0x34, 0xC6]"

definition d5next_userspace_to_internal_channel :: "int \<Rightarrow> int" where
  "d5next_userspace_to_internal_channel x =
     (if x = USERSPACE_CHANNEL_PUMP then FAN_CONTROL_CHANNEL_PUMP
      else if x = USERSPACE_CHANNEL_FAN then FAN_CONTROL_CHANNEL_FAN
      else - EINVAL)"

definition fan_channel_is_valid :: "int \<Rightarrow> bool" where
  "fan_channel_is_valid channel = (channel \<ge> 0 \<and> channel < FAN_CONTROL_NUM_CHANNELS)"

section \<open>The configuration transaction\<close>

definition d5next_get_ctrl_data :: "d5next_data \<Rightarrow> int \<times> d5next_data" where
  "d5next_get_ctrl_data priv =
     (case hid_hw_get_report (hdev priv) STATUS_REPORT_ID (replicate STATUS_REPORT_SIZE 0) of
        (ret, buf, h) \<Rightarrow>
          (if ret < 0 then - ENODATA else ret, priv\<lparr>hdev := h, buffer := buf\<rparr>))"

text \<open>Stores into the buffer, at offsets inside it (every caller passes a member's offset).\<close>

definition store_be16 :: "u8 list \<Rightarrow> nat \<Rightarrow> u16 \<Rightarrow> u8 list" where
  "store_be16 buf off v = buf[off := put_unaligned_be16 v ! 0, off + 1 := put_unaligned_be16 v ! 1]"

definition d5next_send_ctrl_data :: "d5next_data \<Rightarrow> int \<times> d5next_data" where
  "d5next_send_ctrl_data priv =
     (let checksum = crc16 0xffff
            (take STATUS_REPORT_CHECKSUM_LENGTH (drop STATUS_REPORT_CHECKSUM_START (buffer priv)))
            XOR 0xffff;
          buf = store_be16 (buffer priv) crc_off checksum
      in case hid_hw_set_report (hdev priv) STATUS_REPORT_ID buf of
        (ret, h) \<Rightarrow>
          if ret < 0 then (ret, priv\<lparr>hdev := h, buffer := buf\<rparr>)
          else (case hid_hw_set_report h SECONDARY_STATUS_REPORT_ID secondary_status_report of
                  (ret2, h2) \<Rightarrow> (ret2, priv\<lparr>hdev := h2, buffer := buf\<rparr>)))"

text \<open>
  \<open>d5next_get_val\<close>: \<open>to_get\<close> is the offset of the member in the buffer, \<open>sz\<close> the number
  of bytes copied out; the copy is returned in place of the out-parameter.
\<close>

definition d5next_get_val :: "d5next_data \<Rightarrow> nat \<Rightarrow> nat \<Rightarrow> int \<times> u8 list option \<times> d5next_data" where
  "d5next_get_val priv to_get sz =
     (if sz < 1 \<or> sz > 4 then (- EINVAL, None, priv)
      else case d5next_get_ctrl_data priv of
        (ret, priv') \<Rightarrow>
          if ret < 0 then (ret, None, priv')
          else (ret, Some (take sz (drop to_get (buffer priv'))), priv'))"

text \<open>
  \<open>d5next_set_val\<close>: \<open>to_set\<close> is the offset of the member, \<open>sz\<close> its width in bits. The
  download comes first; the width is looked at in the \<open>switch\<close> after it.
\<close>

definition d5next_set_val :: "d5next_data \<Rightarrow> nat \<Rightarrow> int \<Rightarrow> nat \<Rightarrow> int \<times> d5next_data" where
  "d5next_set_val priv to_set v sz =
     (case d5next_get_ctrl_data priv of
        (ret, priv') \<Rightarrow>
          if ret < 0 then (ret, priv')
          else if sz = 16 then
            d5next_send_ctrl_data (priv'\<lparr>buffer := store_be16 (buffer priv') to_set (word_of_int v)\<rparr>)
          else if sz = 8 then
            d5next_send_ctrl_data (priv'\<lparr>buffer := (buffer priv')[to_set := word_of_int v]\<rparr>)
          else (- EINVAL, priv'))"

definition d5next_set_u16_val :: "d5next_data \<Rightarrow> nat \<Rightarrow> int \<Rightarrow> int \<times> d5next_data" where
  "d5next_set_u16_val priv to_set v = d5next_set_val priv to_set v 16"

definition d5next_set_u8_val :: "d5next_data \<Rightarrow> nat \<Rightarrow> int \<Rightarrow> int \<times> d5next_data" where
  "d5next_set_u8_val priv to_set v = d5next_set_val priv to_set v 8"

section \<open>The sysfs attributes of the curve and the bounds\<close>

text \<open>
  The show and store callbacks take the attribute's \<open>nr\<close> (the userspace channel) and
  \<open>index\<close>. A show callback returns the number it prints (the C function returns the
  length of the text) or the error; a store callback gets the outcome of \<open>kstrtol\<close> on
  the written text (\<open>None\<close> when it does not parse, otherwise a value of \<open>long\<close>).
\<close>

definition d5next_get_pwm_setting :: "endian \<Rightarrow> d5next_data \<Rightarrow> int \<Rightarrow> nat \<Rightarrow> (int + int) \<times> d5next_data" where
  "d5next_get_pwm_setting e priv nr idx =
     (let channel = d5next_userspace_to_internal_channel nr
      in if \<not> fan_channel_is_valid channel then (Inl (- ENODATA), priv)
         else
           let to_get = (if idx = IDX_MIN_PWM then min_pwm_off (nat channel)
                         else if idx = IDX_MAX_PWM then max_pwm_off (nat channel)
                         else powers_off (nat channel) idx)
           in case d5next_get_val priv to_get 2 of
                (ret, None, priv') \<Rightarrow> (Inl ret, priv')
              | (ret, Some bs, priv') \<Rightarrow>
                  (Inr (d5next_percent_to_pwm e (load_u16 e (bs ! 0) (bs ! 1))), priv'))"

definition d5next_get_auto_temp :: "endian \<Rightarrow> d5next_data \<Rightarrow> int \<Rightarrow> nat \<Rightarrow> (int + int) \<times> d5next_data" where
  "d5next_get_auto_temp e priv nr idx =
     (let channel = d5next_userspace_to_internal_channel nr
      in if \<not> fan_channel_is_valid channel then (Inl (- ENODATA), priv)
         else
           let to_get = (if idx = NUM_CTRL_CURVE_POINTS + 1 then start_temp_off (nat channel)
                         else temps_off (nat channel) idx)
           in case d5next_get_val priv to_get 2 of
                (ret, None, priv') \<Rightarrow> (Inl ret, priv')
              | (ret, Some bs, priv') \<Rightarrow>
                  (Inr (uint (ntohs e (load_u16 e (bs ! 0) (bs ! 1))) * 10), priv'))"

definition d5next_set_auto_temp :: "d5next_data \<Rightarrow> int \<Rightarrow> nat \<Rightarrow> int option \<Rightarrow> int \<times> d5next_data" where
  "d5next_set_auto_temp priv nr idx kstrtol =
     (let channel = d5next_userspace_to_internal_channel nr
      in case kstrtol of
           None \<Rightarrow> (- EINVAL, priv)
         | Some v \<Rightarrow>
             if \<not> fan_channel_is_valid channel then (- EINVAL, priv)
             else
               let v' = DIV_ROUND_CLOSEST_long v 10;
                   to_set = (if idx = NUM_CTRL_CURVE_POINTS + 1 then start_temp_off (nat channel)
                             else temps_off (nat channel) idx)
               in d5next_set_u16_val priv to_set v')"

definition d5next_set_auto_pwm :: "d5next_data \<Rightarrow> int \<Rightarrow> nat \<Rightarrow> int option \<Rightarrow> int \<times> d5next_data" where
  "d5next_set_auto_pwm priv nr idx kstrtol =
     (let channel = d5next_userspace_to_internal_channel nr
      in if \<not> fan_channel_is_valid channel then (- ENOENT, priv)
         else case kstrtol of
           None \<Rightarrow> (- EINVAL, priv)
         | Some v \<Rightarrow>
             if v < 0 \<or> v > 255 then (- EINVAL, priv)
             else d5next_set_u16_val priv (powers_off (nat channel) idx)
                    (uint (d5next_pwm_to_percent (word_of_int v))))"

text \<open>
  The attributes \<open>pwm1_min\<close>, \<open>pwm2_min\<close>, \<open>pwm1_max\<close>, \<open>pwm2_max\<close> as the source declares
  them: \<open>SENSOR_DEVICE_ATTR_2(pwmN_min, 0644, d5next_get_pwm_setting, d5next_set_auto_temp,
  N - 1, IDX_MIN_PWM)\<close>, and the same with \<open>IDX_MAX_PWM\<close> for \<open>pwmN_max\<close>. \<open>pwm_num\<close> is 1 or 2.
\<close>

definition pwm_min_show :: "endian \<Rightarrow> d5next_data \<Rightarrow> nat \<Rightarrow> (int + int) \<times> d5next_data" where
  "pwm_min_show e priv pwm_num = d5next_get_pwm_setting e priv (int pwm_num - 1) IDX_MIN_PWM"

definition pwm_min_store :: "d5next_data \<Rightarrow> nat \<Rightarrow> int option \<Rightarrow> int \<times> d5next_data" where
  "pwm_min_store priv pwm_num kstrtol = d5next_set_auto_temp priv (int pwm_num - 1) IDX_MIN_PWM kstrtol"

definition pwm_max_show :: "endian \<Rightarrow> d5next_data \<Rightarrow> nat \<Rightarrow> (int + int) \<times> d5next_data" where
  "pwm_max_show e priv pwm_num = d5next_get_pwm_setting e priv (int pwm_num - 1) IDX_MAX_PWM"

definition pwm_max_store :: "d5next_data \<Rightarrow> nat \<Rightarrow> int option \<Rightarrow> int \<times> d5next_data" where
  "pwm_max_store priv pwm_num kstrtol = d5next_set_auto_temp priv (int pwm_num - 1) IDX_MAX_PWM kstrtol"

section \<open>The hwmon read and write callbacks\<close>

text \<open>
  A read callback returns the return code, the value stored through \<open>val\<close> (\<open>None\<close> when
  nothing was stored) and the new state. \<open>channel\<close> is the channel number of the hwmon
  core (userspace numbering), \<open>attr\<close> its attribute number.
\<close>

definition d5next_read_pwm :: "endian \<Rightarrow> d5next_data \<Rightarrow> nat \<Rightarrow> int \<Rightarrow> int \<times> int option \<times> d5next_data" where
  "d5next_read_pwm e priv attr channel =
     (case d5next_get_ctrl_data priv of
        (ret, priv') \<Rightarrow>
          let channel' = d5next_userspace_to_internal_channel channel
          in if ret < 0 \<or> \<not> fan_channel_is_valid channel' then (- ENODATA, None, priv')
             else
               let ch = nat channel'; buf = buffer priv'
               in if attr = hwmon_pwm_input then
                    (if buf ! mode_off ch = FAN_CONTROL_MANUAL
                     then (ret, Some (uint (load_u16 e (buf ! manual_setpoint_off ch)
                                                       (buf ! (manual_setpoint_off ch + 1)))), priv')
                     else (ret, Some (uint (speed_setpoint priv' ! ch)), priv'))
                  else if attr = hwmon_pwm_enable then (ret, Some (uint (buf ! mode_off ch)), priv')
                  else (- ENODATA, None, priv'))"

definition d5next_read_fan :: "endian \<Rightarrow> d5next_data \<Rightarrow> nat \<Rightarrow> int \<Rightarrow> int \<times> int option \<times> d5next_data" where
  "d5next_read_fan e priv attr channel =
     (case d5next_get_ctrl_data priv of
        (ret, priv') \<Rightarrow>
          let channel' = d5next_userspace_to_internal_channel channel
          in if ret < 0 \<or> \<not> fan_channel_is_valid channel' then (- ENODATA, None, priv')
             else
               let ch = nat channel'; buf = buffer priv'
               in if attr = hwmon_fan_input then (ret, Some (uint (speed_input priv' ! ch)), priv')
                  else if attr = hwmon_fan_max then
                    (ret, Some (uint (ntohs e (load_u16 e (buf ! max_speed_off ch)
                                                          (buf ! (max_speed_off ch + 1))))), priv')
                  else (- ENODATA, None, priv'))"

text \<open>The kernel macro \<open>time_after(a, b)\<close>: \<open>(long)(b - a) < 0\<close> on \<open>unsigned long\<close>.\<close>

definition time_after :: "ulong \<Rightarrow> ulong \<Rightarrow> bool" where
  "time_after a b = (sint (b - a) < 0)"

definition d5next_read ::
  "nat \<Rightarrow> endian \<Rightarrow> d5next_data \<Rightarrow> ulong \<Rightarrow> hwmon_sensor_types \<Rightarrow> nat \<Rightarrow> int
     \<Rightarrow> int \<times> int option \<times> d5next_data" where
  "d5next_read HZ e priv jiffies ty attr channel =
     (if time_after jiffies (updated priv + STATUS_UPDATE_INTERVAL HZ) then (- ENODATA, None, priv)
      else case ty of
          hwmon_temp \<Rightarrow> (0, Some (sint (temp_input priv)), priv)
        | hwmon_fan \<Rightarrow> d5next_read_fan e priv attr channel
        | hwmon_power \<Rightarrow> (0, Some (uint (power_input priv ! nat channel)), priv)
        | hwmon_pwm \<Rightarrow> d5next_read_pwm e priv attr channel
        | hwmon_in \<Rightarrow> (0, Some (uint (voltage_input priv ! nat channel)), priv)
        | hwmon_curr \<Rightarrow> (0, Some (uint (current_input priv ! nat channel)), priv)
        | _ \<Rightarrow> (- EOPNOTSUPP, None, priv))"

definition d5next_set_pwm_setpoint :: "d5next_data \<Rightarrow> int \<Rightarrow> int \<Rightarrow> int \<times> d5next_data" where
  "d5next_set_pwm_setpoint priv channel v =
     (if v < 0 \<or> v > 255 \<or> \<not> fan_channel_is_valid channel then (- EINVAL, priv)
      else d5next_set_u16_val priv (manual_setpoint_off (nat channel))
             (uint (d5next_pwm_to_percent (word_of_int v))))"

definition d5next_set_pwm_enable :: "d5next_data \<Rightarrow> int \<Rightarrow> int \<Rightarrow> int \<times> d5next_data" where
  "d5next_set_pwm_enable priv channel v =
     (if v < uint FAN_CONTROL_MANUAL \<or> v > uint FAN_CONTROL_CURVE \<or> \<not> fan_channel_is_valid channel
      then (- EINVAL, priv)
      else d5next_set_u8_val priv (mode_off (nat channel)) v)"

definition d5next_write ::
  "d5next_data \<Rightarrow> hwmon_sensor_types \<Rightarrow> nat \<Rightarrow> int \<Rightarrow> int \<Rightarrow> int \<times> d5next_data" where
  "d5next_write priv ty attr channel v =
     (case ty of
        hwmon_pwm \<Rightarrow>
          let channel' = d5next_userspace_to_internal_channel channel
          in if attr = hwmon_pwm_input then d5next_set_pwm_setpoint priv channel' v
             else if attr = hwmon_pwm_enable then d5next_set_pwm_enable priv channel' v
             else (- EOPNOTSUPP, priv)
      | _ \<Rightarrow> (- EOPNOTSUPP, priv))"

section \<open>Telemetry ingestion\<close>

text \<open>
  \<open>d5next_raw_event\<close>. \<open>data\<close> is the memory at the pointer the HID core passes (a byte
  for every offset), \<open>sz\<close> the length of the report in it. The function never looks at
  \<open>sz\<close>: it reads the fixed offsets whatever the length. Both elements of each
  two-element array (all three of \<open>voltage_input\<close>) are assigned.
\<close>

definition be16_at :: "(nat \<Rightarrow> u8) \<Rightarrow> nat \<Rightarrow> u16" where
  "be16_at data off = get_unaligned_be16 (data off) (data (off + 1))"

definition be32_at :: "(nat \<Rightarrow> u8) \<Rightarrow> nat \<Rightarrow> u32" where
  "be32_at data off = get_unaligned_be32 (data off) (data (off + 1)) (data (off + 2)) (data (off + 3))"

definition d5next_raw_event ::
  "endian \<Rightarrow> d5next_data \<Rightarrow> nat \<Rightarrow> (nat \<Rightarrow> u8) \<Rightarrow> int \<Rightarrow> ulong \<Rightarrow> int \<times> d5next_data" where
  "d5next_raw_event e priv report_id data sz jiffies =
     (if report_id \<noteq> SENSOR_REPORT_ID then (0, priv)
      else
        (0, priv\<lparr>
          serial_number := [ucast (be16_at data SERIAL_FIRST_PART), ucast (be16_at data SERIAL_SECOND_PART)],
          firmware_version := be16_at data FIRMWARE_VERSION,
          power_cycles := be32_at data POWER_CYCLES,
          temp_input := word_of_int (uint (be16_at data COOLANT_TEMP) * 10),
          speed_input := [be16_at data FAN_SPEED, be16_at data PUMP_SPEED],
          speed_setpoint :=
            [word_of_int (d5next_percent_to_pwm e (ucast (data FAN_SETPOINT))),
             word_of_int (d5next_percent_to_pwm e (ucast (data PUMP_SETPOINT)))],
          power_input :=
            [word_of_int (uint (be16_at data PUMP_POWER) * 10000),
             word_of_int (uint (be16_at data FAN_POWER) * 10000)],
          voltage_input :=
            [word_of_int (uint (be16_at data PUMP_VOLTAGE) * 10),
             word_of_int (uint (be16_at data FAN_VOLTAGE) * 10),
             word_of_int (uint (be16_at data PLUS_5V_VOLTAGE) * 10)],
          current_input := [be16_at data PUMP_CURRENT, be16_at data FAN_CURRENT],
          updated := jiffies\<rparr>))"

section \<open>Device attach\<close>

text \<open>
  \<open>d5next_probe\<close>. What the allocator, the HID core and the hwmon core answer is the
  environment; on success the result is the freshly zeroed state with \<open>updated\<close> set.
\<close>

record probe_env =
  priv_alloc_ok :: bool
  buffer_alloc_ok :: bool
  hid_parse_ret :: int
  hid_hw_start_ret :: int
  hid_hw_open_ret :: int
  hwmon_register_err :: int

definition d5next_probe :: "nat \<Rightarrow> probe_env \<Rightarrow> hid_device \<Rightarrow> ulong \<Rightarrow> int \<times> d5next_data option" where
  "d5next_probe HZ env h jiffies =
     (if \<not> priv_alloc_ok env then (- ENOMEM, None)
      else if \<not> buffer_alloc_ok env then (- ENOMEM, None)
      else
        let priv = \<lparr>hdev = h, buffer = replicate STATUS_REPORT_SIZE 0, temp_input = 0,
                    speed_input = [0, 0], speed_setpoint = [0, 0], power_input = [0, 0],
                    voltage_input = [0, 0, 0], current_input = [0, 0], serial_number = [0, 0],
                    firmware_version = 0, power_cycles = 0,
                    updated = jiffies - STATUS_UPDATE_INTERVAL HZ\<rparr>
        in if hid_parse_ret env \<noteq> 0 then (hid_parse_ret env, None)
           else if hid_hw_start_ret env \<noteq> 0 then (hid_hw_start_ret env, None)
           else if hid_hw_open_ret env \<noteq> 0 then (hid_hw_open_ret env, None)
           else if hwmon_register_err env \<noteq> 0 then (hwmon_register_err env, None)
           else (0, Some priv))"

section \<open>A concrete device and state\<close>

text \<open>
  A device whose configuration blob is all zero with its valid checksum 0x45C4, which
  answers every request, and a driver state as it is right after attach at tick 0.
\<close>

definition example_blob :: "u8 list" where
  "example_blob = replicate 807 0 @ [0x45, 0xC4]"

definition example_hdev :: hid_device where
  "example_hdev = \<lparr>get_data = example_blob, get_ret = 809, set_ret = 809, ack_ret = 11, requests = []\<rparr>"

definition example_priv :: d5next_data where
  "example_priv =
     \<lparr>hdev = example_hdev, buffer = replicate 809 0, temp_input = 0,
      speed_input = [0, 0], speed_setpoint = [0, 0], power_input = [0, 0],
      voltage_input = [0, 0, 0], current_input = [0, 0], serial_number = [0, 0],
      firmware_version = 0, power_cycles = 0, updated = 0\<rparr>"


text \<open>
  The memory of a sensor report (report id 1): coolant temperature raw 2534 at 0x57, pump
  speed raw 2500 at 0x74, pump setpoint raw 5000 (50.00 %) at 0x79, every other byte zero.
\<close>

definition example_report :: "nat \<Rightarrow> u8" where
  "example_report i =
     (if i = 0 then 0x01
      else if i = 0x57 then 0x09 else if i = 0x58 then 0xE6
      else if i = 0x74 then 0x09 else if i = 0x75 then 0xC4
      else if i = 0x79 then 0x13 else if i = 0x7A then 0x88
      else 0)"

text \<open>An attach in which every allocation and registration succeeds.\<close>

definition example_env :: probe_env where
  "example_env = \<lparr>priv_alloc_ok = True, buffer_alloc_ok = True, hid_parse_ret = 0,
     hid_hw_start_ret = 0, hid_hw_open_ret = 0, hwmon_register_err = 0\<rparr>"

text \<open>
  A device whose pump channel (internal channel 1) is in manual mode with the manual
  setpoint 10000 (100.00 %, bytes 0x27 0x10 at offsets 151 and 152), every other setting
  zero, and the checksum 0xFCD5 of that blob.
\<close>

definition manual_blob :: "u8 list" where
  "manual_blob = replicate 151 0 @ [0x27, 0x10] @ replicate 654 0 @ [0xFC, 0xD5]"

definition manual_priv :: d5next_data where
  "manual_priv = example_priv\<lparr>hdev := example_hdev\<lparr>get_data := manual_blob\<rparr>\<rparr>"

section \<open>Properties of the unit conversion\<close>

lemma be16_put: "get_unaligned_be16 (ucast (drop_bit 8 v)) (ucast v) = (v :: u16)"
  unfolding get_unaligned_be16_def
  by (rule bit_word_eqI) (auto simp add: bit_simps)

lemma ntohs_stored: "ntohs e (stored_u16 e v) = v"
proof (cases e)
  case LittleEndian
  have "swab16 (push_bit 8 (ucast (ucast v :: u8)) OR ucast (ucast (drop_bit 8 v) :: u8)) = v"
    unfolding swab16_def
    by (rule bit_word_eqI) (auto simp add: bit_simps)
  with LittleEndian show ?thesis
    by (simp add: ntohs_def stored_u16_def load_u16_def put_unaligned_be16_def)
next
  case BigEndian
  with be16_put [of v] show ?thesis
    by (simp add: ntohs_def stored_u16_def load_u16_def put_unaligned_be16_def
        get_unaligned_be16_def)
qed

lemma DIV_ROUND_CLOSEST_nonneg:
  "0 \<le> x \<Longrightarrow> 0 < d \<Longrightarrow> DIV_ROUND_CLOSEST x d = (x + d div 2) div d"
proof -
  assume x: "0 \<le> x" and d: "0 < d"
  have zero: "(d div 2) div d = 0"
    using d by (simp add: div_pos_pos_trivial)
  show ?thesis
  proof (cases "x = 0")
    case True
    with d zero show ?thesis
      by (simp add: DIV_ROUND_CLOSEST_def c_div_def)
  next
    case False
    with x d show ?thesis
      by (simp add: DIV_ROUND_CLOSEST_def c_div_def)
  qed
qed

lemma pwm_to_percent_uint:
  "uint (d5next_pwm_to_percent u) = (uint u * 10000 + 127) div 255"
proof -
  have b: "uint u < 256" using uint_lt2p [of u] by simp
  have r: "DIV_ROUND_CLOSEST (uint u * 100 * 100) 255 = (uint u * 10000 + 127) div 255"
    by (simp add: DIV_ROUND_CLOSEST_nonneg)
  have lo: "0 \<le> (uint u * 10000 + 127) div 255"
    by (simp add: pos_imp_zdiv_nonneg_iff)
  have hi: "(uint u * 10000 + 127) div 255 < 65536" using b by simp
  show ?thesis
    unfolding d5next_pwm_to_percent_def r
    using lo hi by (simp add: uint_word_of_int take_bit_int_eq_self)
qed

lemma percent_roundtrip_exact:
  "d5next_percent_to_pwm e (stored_u16 e (d5next_pwm_to_percent u)) = uint u"
proof -
  let ?p = "(uint u * 10000 + 127) div 255"
  have b: "0 \<le> uint u" by simp
  have p0: "0 \<le> ?p" by (simp add: pos_imp_zdiv_nonneg_iff)
  have "d5next_percent_to_pwm e (stored_u16 e (d5next_pwm_to_percent u))
        = DIV_ROUND_CLOSEST (?p * 255) 10000"
    by (simp add: d5next_percent_to_pwm_def ntohs_stored pwm_to_percent_uint)
  also have "\<dots> = (?p * 255 + 5000) div 10000"
    using p0 by (simp add: DIV_ROUND_CLOSEST_nonneg)
  also have "\<dots> = uint u"
  proof -
    define n where "n = uint u"
    define p where "p = (n * 10000 + 127) div 255"
    have l: "p * 255 \<le> n * 10000 + 127"
      unfolding p_def by simp
    have g: "n * 10000 + 127 < p * 255 + 255"
      unfolding p_def
      using pos_mod_bound [of 255 "n * 10000 + 127"]
        div_mult_mod_eq [of "n * 10000 + 127" 255] by linarith
    have "0 \<le> p * 255 + 5000 - 10000 * n" using g by linarith
    moreover have "p * 255 + 5000 - 10000 * n < 10000" using l by linarith
    ultimately have "(p * 255 + 5000) div 10000 = n"
      by (intro int_div_pos_eq [where r = "p * 255 + 5000 - 10000 * n"]) simp_all
    then show ?thesis by (simp add: p_def n_def)
  qed
  finally show ?thesis .
qed

text \<open>
  C8. For every control-unit value \<open>u\<close> (a \<open>u8\<close>, so any value in 0..255), converting it to
  the device's fixed-point percent with \<open>d5next_pwm_to_percent\<close> and converting the result
  back with \<open>d5next_percent_to_pwm\<close> gives a value within 1 of \<open>u\<close> (in fact \<open>u\<close> itself).
  The value travels as in the driver: \<open>d5next_pwm_to_percent\<close> returns the number in host
  order, \<open>put_unaligned_be16\<close> makes it the big-endian field of the blob, and
  \<open>d5next_percent_to_pwm\<close> takes the field as loaded and applies \<open>ntohs\<close>. This holds on
  either host byte order.
\<close>

theorem C8_percent_roundtrip_within_one:
  "\<bar>d5next_percent_to_pwm e (stored_u16 e (d5next_pwm_to_percent u)) - uint u\<bar> \<le> 1"
  by (simp add: percent_roundtrip_exact)

section \<open>The table-driven CRC computes CRC-16/USB\<close>

lemma table_ok_nth:
  "table_ok ts i \<Longrightarrow> k < length ts \<Longrightarrow> ts ! k = crc16_usb_byte (i + of_nat k) 0"
proof (induction ts arbitrary: i k)
  case Nil
  then show ?case by simp
next
  case (Cons t ts)
  show ?case
  proof (cases k)
    case 0
    with Cons.prems show ?thesis by simp
  next
    case (Suc j)
    with Cons.prems have "ts ! j = crc16_usb_byte (i + 1 + of_nat j) 0"
      by (intro Cons.IH) simp_all
    with Suc show ?thesis by (simp add: ac_simps)
  qed
qed

lemma crc16_table_ok: "table_ok crc16_table 0"
  by (simp add: crc16_table_def crc16_usb_byte_def crc16_usb_bit_def)

lemma crc16_table_nth:
  assumes "k < 256"
  shows "crc16_table ! k = crc16_usb_byte (of_nat k) 0"
proof -
  have "length crc16_table = 256" by (simp add: crc16_table_def)
  with assms table_ok_nth [OF crc16_table_ok, of k] show ?thesis by simp
qed

lemma crc16_usb_bit_xor: "crc16_usb_bit (a XOR b) = crc16_usb_bit a XOR crc16_usb_bit b"
  by (simp add: crc16_usb_bit_def bit_xor_iff drop_bit_xor ac_simps)

lemma crc16_usb_byte_0_xor:
  "crc16_usb_byte (a XOR b) 0 = crc16_usb_byte a 0 XOR crc16_usb_byte b 0"
  by (simp add: crc16_usb_byte_def crc16_usb_bit_xor)

lemma crc16_usb_byte_0_high:
  assumes "take_bit 8 c = 0"
  shows "crc16_usb_byte c 0 = drop_bit 8 c"
proof -
  have b: "\<not> bit c n" if "n < 8" for n
    using assms that by (metis bit_take_bit_iff bit_0_eq bot_apply bot_bool_def)
  have even: "crc16_usb_bit x = drop_bit 1 x" if "\<not> bit x 0" for x
    using that by (simp add: crc16_usb_bit_def)
  have "crc16_usb_byte c 0 =
      drop_bit 1 (drop_bit 1 (drop_bit 1 (drop_bit 1 (drop_bit 1 (drop_bit 1 (drop_bit 1 (drop_bit 1 c)))))))"
    unfolding crc16_usb_byte_def by (simp add: even bit_drop_bit_eq b)
  then show ?thesis by (simp add: eval_nat_numeral)
qed

lemma split_low_high: "(x :: u16) = take_bit 8 x XOR push_bit 8 (drop_bit 8 x)"
  by (rule bit_word_eqI) (auto simp add: bit_simps)

lemma low_byte_mask: "(x :: u16) AND 0xff = take_bit 8 x"
  by (simp add: take_bit_eq_mask mask_eq_exp_minus_1)

lemma low_byte_index: "unat (take_bit 8 (x :: u16)) < 256"
  using take_bit_nat_less_exp [of 8 "unat x"] by (simp add: unsigned_take_bit_eq)

lemma drop_byte_ucast: "drop_bit 8 (c XOR ucast (d :: u8)) = drop_bit 8 (c :: u16)"
  by (rule bit_word_eqI) (auto simp add: bit_simps dest: bit_imp_le_length)

lemma crc16_usb_byte_0_shifted:
  "crc16_usb_byte (push_bit 8 (drop_bit 8 x)) 0 = drop_bit 8 x"
proof -
  have "take_bit 8 (push_bit 8 (drop_bit 8 x)) = 0"
    by (rule bit_word_eqI) (auto simp add: bit_simps)
  then have "crc16_usb_byte (push_bit 8 (drop_bit 8 x)) 0 = drop_bit 8 (push_bit 8 (drop_bit 8 x))"
    by (rule crc16_usb_byte_0_high)
  also have "\<dots> = drop_bit 8 x"
    by (rule bit_word_eqI) (auto simp add: bit_simps dest: bit_imp_le_length)
  finally show ?thesis .
qed

lemma crc16_byte_refines: "crc16_byte c d = crc16_usb_byte c d"
proof -
  define x where "x = c XOR ucast d"
  have lo: "crc16_table ! unat (take_bit 8 x) = crc16_usb_byte (take_bit 8 x) 0"
    using crc16_table_nth [OF low_byte_index [of x]] by simp
  have "crc16_usb_byte x 0 =
      crc16_usb_byte (take_bit 8 x) 0 XOR crc16_usb_byte (push_bit 8 (drop_bit 8 x)) 0"
    using split_low_high [of x] crc16_usb_byte_0_xor by metis
  moreover have "drop_bit 8 x = drop_bit 8 c"
    unfolding x_def by (rule drop_byte_ucast)
  ultimately have "crc16_usb_byte x 0 = crc16_table ! unat (x AND 0xff) XOR drop_bit 8 c"
    by (simp only: low_byte_mask lo crc16_usb_byte_0_shifted)
  moreover have "crc16_usb_byte x 0 = crc16_usb_byte c d"
    by (simp add: crc16_usb_byte_def x_def)
  ultimately show ?thesis
    by (simp add: crc16_byte_def x_def ac_simps)
qed

lemma crc16_refines: "crc16 c bs = foldl crc16_usb_byte c bs"
  by (induction bs arbitrary: c) (simp_all add: crc16_def crc16_byte_refines)

lemma crc16_is_crc16_usb: "crc16 0xffff bs XOR 0xffff = crc16_usb bs"
  by (simp add: crc16_refines crc16_usb_def)

lemma crc16_usb_check_value:
  "crc16_usb [0x31, 0x32, 0x33, 0x34, 0x35, 0x36, 0x37, 0x38, 0x39] = 0xB4C8"
  by (simp add: crc16_usb_def crc16_usb_byte_def crc16_usb_bit_def)

lemma crc16_usb_polynomial: "word_reverse (0x8005 :: u16) = 0xA001"
  by code_simp

section \<open>The transaction steps\<close>

lemma status_uploads_append:
  "status_uploads (xs @ ys) = status_uploads xs @ status_uploads ys"
  by (induction xs rule: status_uploads.induct) simp_all

lemma get_ctrl_data_ret:
  "fst (d5next_get_ctrl_data priv) = (if get_ret (hdev priv) < 0 then - ENODATA else get_ret (hdev priv))"
  by (simp add: d5next_get_ctrl_data_def hid_hw_get_report_def)

lemma get_ctrl_data_buffer:
  "buffer (snd (d5next_get_ctrl_data priv)) =
     take 809 (get_data (hdev priv)) @ drop (length (get_data (hdev priv))) (replicate 809 0)"
  by (simp add: d5next_get_ctrl_data_def hid_hw_get_report_def)

lemma get_ctrl_data_length: "length (buffer (snd (d5next_get_ctrl_data priv))) = 809"
  by (simp add: get_ctrl_data_buffer)

lemma get_ctrl_data_requests:
  "requests (hdev (snd (d5next_get_ctrl_data priv))) =
     requests (hdev priv) @ [GET_REPORT STATUS_REPORT_ID STATUS_REPORT_SIZE]"
  by (simp add: d5next_get_ctrl_data_def hid_hw_get_report_def)

lemma get_ctrl_data_hdev:
  "get_ret (hdev (snd (d5next_get_ctrl_data priv))) = get_ret (hdev priv)"
  "set_ret (hdev (snd (d5next_get_ctrl_data priv))) = set_ret (hdev priv)"
  "ack_ret (hdev (snd (d5next_get_ctrl_data priv))) = ack_ret (hdev priv)"
  "get_data (hdev (snd (d5next_get_ctrl_data priv))) = get_data (hdev priv)"
  by (simp_all add: d5next_get_ctrl_data_def hid_hw_get_report_def)

lemma get_ctrl_data_snapshot:
  "temp_input (snd (d5next_get_ctrl_data priv)) = temp_input priv"
  "speed_input (snd (d5next_get_ctrl_data priv)) = speed_input priv"
  "speed_setpoint (snd (d5next_get_ctrl_data priv)) = speed_setpoint priv"
  "power_input (snd (d5next_get_ctrl_data priv)) = power_input priv"
  "voltage_input (snd (d5next_get_ctrl_data priv)) = voltage_input priv"
  "current_input (snd (d5next_get_ctrl_data priv)) = current_input priv"
  "updated (snd (d5next_get_ctrl_data priv)) = updated priv"
  by (simp_all add: d5next_get_ctrl_data_def hid_hw_get_report_def)

lemma send_ctrl_data_buffer:
  "buffer (snd (d5next_send_ctrl_data priv)) =
     store_be16 (buffer priv) crc_off (crc16_usb (take 806 (drop 1 (buffer priv))))"
  by (simp add: d5next_send_ctrl_data_def hid_hw_set_report_def Let_def crc16_is_crc16_usb)

lemma send_ctrl_data_uploads:
  "status_uploads (requests (hdev (snd (d5next_send_ctrl_data priv)))) =
     status_uploads (requests (hdev priv)) @ [buffer (snd (d5next_send_ctrl_data priv))]"
  by (simp add: d5next_send_ctrl_data_def hid_hw_set_report_def Let_def status_uploads_append)

lemma store_be16_length: "length (store_be16 buf off v) = length buf"
  by (simp add: store_be16_def)

lemma store_be16_nth_other:
  "i \<noteq> off \<Longrightarrow> i \<noteq> off + 1 \<Longrightarrow> store_be16 buf off v ! i = buf ! i"
  by (simp add: store_be16_def)

lemma store_be16_read:
  "off + 1 < length buf \<Longrightarrow>
     get_unaligned_be16 (store_be16 buf off v ! off) (store_be16 buf off v ! (off + 1)) = v"
  using be16_put [of v] by (simp add: store_be16_def put_unaligned_be16_def)

lemma store_be16_take: "take off (store_be16 buf off v) = take off buf"
  by (simp add: store_be16_def)

lemma checksum_range_stored:
  "take 806 (drop 1 (store_be16 buf crc_off v)) = take 806 (drop 1 buf)"
proof -
  have "take 806 (drop 1 xs) = drop 1 (take 807 xs)" for xs :: "u8 list"
    by (simp add: drop_take)
  then show ?thesis by (simp add: store_be16_take [of crc_off, unfolded crc_off_def] crc_off_def)
qed

lemma send_ctrl_data_checksum:
  assumes "length (buffer priv) = STATUS_REPORT_SIZE"
  shows "get_unaligned_be16 (buffer (snd (d5next_send_ctrl_data priv)) ! crc_off)
           (buffer (snd (d5next_send_ctrl_data priv)) ! (crc_off + 1))
         = crc16_usb (take 806 (drop 1 (buffer priv)))"
proof -
  have "crc_off + 1 < length (buffer priv)"
    using assms by (simp add: crc_off_def)
  then show ?thesis
    unfolding send_ctrl_data_buffer by (rule store_be16_read)
qed

lemma set_val_result:
  assumes "0 \<le> get_ret (hdev priv)" and "sz = 8 \<or> sz = 16"
  shows "d5next_set_val priv to_set v sz =
           d5next_send_ctrl_data ((snd (d5next_get_ctrl_data priv))
             \<lparr>buffer := (if sz = 16
                 then store_be16 (buffer (snd (d5next_get_ctrl_data priv))) to_set (word_of_int v)
                 else (buffer (snd (d5next_get_ctrl_data priv)))[to_set := word_of_int v])\<rparr>)"
  using assms get_ctrl_data_ret [of priv]
  by (auto simp add: d5next_set_val_def split: prod.splits)

lemma set_val_uploads:
  assumes "0 \<le> get_ret (hdev priv)" and "sz = 8 \<or> sz = 16"
  shows "status_uploads (requests (hdev (snd (d5next_set_val priv to_set v sz)))) =
           status_uploads (requests (hdev priv)) @ [buffer (snd (d5next_set_val priv to_set v sz))]"
  unfolding set_val_result [OF assms] send_ctrl_data_uploads
  by (simp add: get_ctrl_data_requests status_uploads_append)

lemma set_val_length:
  assumes "0 \<le> get_ret (hdev priv)" and "sz = 8 \<or> sz = 16"
  shows "length (buffer (snd (d5next_set_val priv to_set v sz))) = 809"
  unfolding set_val_result [OF assms] send_ctrl_data_buffer
  by (simp add: store_be16_length get_ctrl_data_length)

lemma set_val_checksum:
  assumes "0 \<le> get_ret (hdev priv)" and "sz = 8 \<or> sz = 16"
  shows "get_unaligned_be16 (buffer (snd (d5next_set_val priv to_set v sz)) ! crc_off)
           (buffer (snd (d5next_set_val priv to_set v sz)) ! (crc_off + 1))
         = crc16_usb (take 806 (drop 1 (buffer (snd (d5next_set_val priv to_set v sz)))))"
proof -
  let ?p = "(snd (d5next_get_ctrl_data priv))
             \<lparr>buffer := (if sz = 16
                 then store_be16 (buffer (snd (d5next_get_ctrl_data priv))) to_set (word_of_int v)
                 else (buffer (snd (d5next_get_ctrl_data priv)))[to_set := word_of_int v])\<rparr>"
  have len: "length (buffer ?p) = STATUS_REPORT_SIZE"
    by (simp add: store_be16_length get_ctrl_data_length)
  have "take 806 (drop 1 (buffer (snd (d5next_send_ctrl_data ?p)))) = take 806 (drop 1 (buffer ?p))"
    unfolding send_ctrl_data_buffer by (rule checksum_range_stored)
  with send_ctrl_data_checksum [OF len] show ?thesis
    unfolding set_val_result [OF assms] by simp
qed


lemma crc16_usb_bits_numeral:
  "crc16_usb_bits (numeral k) c = crc16_usb_bits (pred_numeral k) (crc16_usb_bit c)"
  by (simp add: numeral_eq_Suc)

lemma crc16_usb_bits_add:
  "crc16_usb_bits (m + n) c = crc16_usb_bits n (crc16_usb_bits m c)"
  by (induction m arbitrary: c) simp_all

lemma crc16_usb_zero_run:
  "foldl crc16_usb_byte c (replicate n 0 @ rest) = foldl crc16_usb_byte (crc16_usb_bits (8 * n) c) rest"
proof (induction n arbitrary: c)
  case 0
  show ?case by simp
next
  case (Suc n)
  have "crc16_usb_bits (8 * Suc n) c = crc16_usb_bits (8 * n) (crc16_usb_byte c 0)"
    by (simp add: crc16_usb_byte_def eval_nat_numeral)
  with Suc [of "crc16_usb_byte c 0"] show ?case by simp
qed

lemma zero_run_806: "crc16_usb_bits 6448 0xFFFF = 0xBA3B"
  by (simp add: crc16_usb_bits_numeral crc16_usb_bit_def)

lemma crc16_usb_zero_blob: "crc16_usb (replicate 806 0) = 0x45C4"
  using crc16_usb_zero_run [where c = "0xFFFF" and n = 806 and rest = "[]"] by (simp add: crc16_usb_def zero_run_806)

lemma example_downloaded:
  "buffer (snd (d5next_get_ctrl_data example_priv)) = example_blob"
  by (simp add: get_ctrl_data_buffer example_priv_def example_hdev_def example_blob_def)

text \<open>
  C1. The checksummed range, 0x326 bytes from offset 1, ends where \<open>crc\<close> begins, and
  \<open>crc\<close> is the last two bytes: the range leaves out the version byte and the checksum
  itself. The blob that \<open>d5next_send_ctrl_data\<close> puts on the wire carries, big-endian at
  the offset of \<open>crc\<close>, the CRC-16/USB of that range of the buffer it was called with, and
  leaves the bytes before \<open>crc\<close> as they were. The blob that a write transaction
  (\<open>d5next_set_val\<close> with a supported width, after a successful download) uploads carries
  the CRC-16/USB of its own patched contents: the checksum is computed anew from the
  buffer at every upload.
\<close>

theorem C1_upload_checksum:
  "STATUS_REPORT_CHECKSUM_START + STATUS_REPORT_CHECKSUM_LENGTH = crc_off
   \<and> crc_off + 2 = STATUS_REPORT_SIZE
   \<and> (length (buffer priv) = STATUS_REPORT_SIZE \<longrightarrow>
      status_uploads (requests (hdev (snd (d5next_send_ctrl_data priv)))) =
        status_uploads (requests (hdev priv)) @ [buffer (snd (d5next_send_ctrl_data priv))]
    \<and> take crc_off (buffer (snd (d5next_send_ctrl_data priv))) = take crc_off (buffer priv)
    \<and> get_unaligned_be16 (buffer (snd (d5next_send_ctrl_data priv)) ! crc_off)
          (buffer (snd (d5next_send_ctrl_data priv)) ! (crc_off + 1)) =
        crc16_usb (take STATUS_REPORT_CHECKSUM_LENGTH
                     (drop STATUS_REPORT_CHECKSUM_START (buffer priv))))
   \<and> (0 \<le> get_ret (hdev priv) \<and> (sz = 8 \<or> sz = 16) \<longrightarrow>
      status_uploads (requests (hdev (snd (d5next_set_val priv to_set v sz)))) =
        status_uploads (requests (hdev priv)) @ [buffer (snd (d5next_set_val priv to_set v sz))]
    \<and> get_unaligned_be16 (buffer (snd (d5next_set_val priv to_set v sz)) ! crc_off)
          (buffer (snd (d5next_set_val priv to_set v sz)) ! (crc_off + 1)) =
        crc16_usb (take STATUS_REPORT_CHECKSUM_LENGTH
                     (drop STATUS_REPORT_CHECKSUM_START
                        (buffer (snd (d5next_set_val priv to_set v sz))))))"
proof (intro conjI impI)
  show "STATUS_REPORT_CHECKSUM_START + STATUS_REPORT_CHECKSUM_LENGTH = crc_off"
    by (simp add: crc_off_def)
  show "crc_off + 2 = STATUS_REPORT_SIZE"
    by (simp add: crc_off_def)
next
  assume len: "length (buffer priv) = STATUS_REPORT_SIZE"
  show "status_uploads (requests (hdev (snd (d5next_send_ctrl_data priv)))) =
        status_uploads (requests (hdev priv)) @ [buffer (snd (d5next_send_ctrl_data priv))]"
    by (rule send_ctrl_data_uploads)
  show "take crc_off (buffer (snd (d5next_send_ctrl_data priv))) = take crc_off (buffer priv)"
    by (simp add: send_ctrl_data_buffer store_be16_take)
  from send_ctrl_data_checksum [OF len]
  show "get_unaligned_be16 (buffer (snd (d5next_send_ctrl_data priv)) ! crc_off)
          (buffer (snd (d5next_send_ctrl_data priv)) ! (crc_off + 1)) =
        crc16_usb (take STATUS_REPORT_CHECKSUM_LENGTH
                     (drop STATUS_REPORT_CHECKSUM_START (buffer priv)))"
    by simp
next
  assume a: "0 \<le> get_ret (hdev priv) \<and> (sz = 8 \<or> sz = 16)"
  then have g: "0 \<le> get_ret (hdev priv)" and w: "sz = 8 \<or> sz = 16" by simp_all
  show "status_uploads (requests (hdev (snd (d5next_set_val priv to_set v sz)))) =
        status_uploads (requests (hdev priv)) @ [buffer (snd (d5next_set_val priv to_set v sz))]"
    by (rule set_val_uploads [OF g w])
  from set_val_checksum [OF g w]
  show "get_unaligned_be16 (buffer (snd (d5next_set_val priv to_set v sz)) ! crc_off)
          (buffer (snd (d5next_set_val priv to_set v sz)) ! (crc_off + 1)) =
        crc16_usb (take STATUS_REPORT_CHECKSUM_LENGTH
                     (drop STATUS_REPORT_CHECKSUM_START
                        (buffer (snd (d5next_set_val priv to_set v sz)))))"
    by simp
qed

theorem C1_upload_checksum_witness:
  "length (buffer example_priv) = STATUS_REPORT_SIZE
   \<and> 0 \<le> get_ret (hdev example_priv)
   \<and> status_uploads (requests (hdev (snd (d5next_send_ctrl_data example_priv)))) =
       [buffer (snd (d5next_send_ctrl_data example_priv))]
   \<and> get_unaligned_be16 (buffer (snd (d5next_send_ctrl_data example_priv)) ! crc_off)
          (buffer (snd (d5next_send_ctrl_data example_priv)) ! (crc_off + 1)) = 0x45C4
   \<and> get_unaligned_be16 (buffer (snd (d5next_set_val example_priv (mode_off 0) 1 8)) ! crc_off)
          (buffer (snd (d5next_set_val example_priv (mode_off 0) 1 8)) ! (crc_off + 1)) =
        crc16_usb (take 806 (drop 1 (buffer (snd (d5next_set_val example_priv (mode_off 0) 1 8)))))"
proof -
  have len: "length (buffer example_priv) = STATUS_REPORT_SIZE"
    by (simp add: example_priv_def)
  have ret: "0 \<le> get_ret (hdev example_priv)"
    by (simp add: example_priv_def example_hdev_def)
  have req: "requests (hdev example_priv) = []"
    by (simp add: example_priv_def example_hdev_def)
  have zero: "crc16_usb (take 806 (drop 1 (buffer example_priv))) = 0x45C4"
    by (simp add: example_priv_def crc16_usb_zero_blob)
  from C1_upload_checksum [of example_priv 8 "mode_off 0" 1] len ret req zero
  show ?thesis by simp
qed

section \<open>Write transactions: what is uploaded\<close>

lemma set_val_u16_buffer:
  assumes "0 \<le> get_ret (hdev priv)"
  shows "buffer (snd (d5next_set_val priv to_set v 16)) =
           store_be16 (store_be16 (buffer (snd (d5next_get_ctrl_data priv))) to_set (word_of_int v))
             crc_off
             (crc16_usb (take 806 (drop 1
                (store_be16 (buffer (snd (d5next_get_ctrl_data priv))) to_set (word_of_int v)))))"
  unfolding set_val_result [OF assms disjI2 [OF refl]] send_ctrl_data_buffer by simp

lemma set_val_u8_buffer:
  assumes "0 \<le> get_ret (hdev priv)"
  shows "buffer (snd (d5next_set_val priv to_set v 8)) =
           store_be16 ((buffer (snd (d5next_get_ctrl_data priv)))[to_set := word_of_int v])
             crc_off
             (crc16_usb (take 806 (drop 1
                ((buffer (snd (d5next_get_ctrl_data priv)))[to_set := word_of_int v]))))"
  unfolding set_val_result [OF assms disjI1 [OF refl]] send_ctrl_data_buffer by simp

lemma example_patched:
  "store_be16 example_blob (manual_setpoint_off 0) 5020 =
     replicate 66 0 @ [0x13, 0x9C] @ replicate 739 0 @ [0x45, 0xC4]"
proof -
  have "replicate 807 (0 :: u8) = replicate (66 + (2 + 739)) 0"
    by simp
  also have "\<dots> = replicate 66 0 @ replicate 2 0 @ replicate 739 0"
    by (simp only: replicate_add)
  also have "replicate 2 (0 :: u8) = [0, 0]"
    by (simp add: numeral_2_eq_2)
  finally have r: "replicate 807 (0 :: u8) = replicate 66 0 @ [0, 0] @ replicate 739 0" .
  show ?thesis
    unfolding example_blob_def r
    by (simp add: store_be16_def put_unaligned_be16_def manual_setpoint_off_def fan_ctrl_off_def
        list_update_append)
qed

lemma example_patched_range:
  "take 806 (drop 1 (replicate 66 0 @ [0x13, 0x9C] @ replicate 739 0 @ [0x45, 0xC4 :: u8]))
     = replicate 65 0 @ [0x13, 0x9C] @ replicate 739 0"
  by simp

lemma example_patched_crc:
  "crc16_usb (replicate 65 0 @ [0x13, 0x9C] @ replicate 739 0) = 0xBBA7"
proof -
  have "crc16_usb_bits 520 0xFFFF = 0xF02E"
    by (simp add: crc16_usb_bits_numeral crc16_usb_bit_def)
  moreover have "crc16_usb_bits 5912 (crc16_usb_byte (crc16_usb_byte 0xF02E 0x13) 0x9C) = 0x4458"
    by (simp add: crc16_usb_bits_numeral crc16_usb_byte_def crc16_usb_bit_def)
  ultimately show ?thesis
    using crc16_usb_zero_run [where c = "0xFFFF" and n = 65 and rest = "[0x13, 0x9C] @ replicate 739 0"]
      crc16_usb_zero_run [where c = "crc16_usb_byte (crc16_usb_byte 0xF02E 0x13) 0x9C" and n = 739 and rest = "[]"]
    by (simp add: crc16_usb_def)
qed

lemma example_uploaded:
  "buffer (snd (d5next_set_val example_priv (manual_setpoint_off 0) 5020 16)) =
     replicate 66 0 @ [0x13, 0x9C] @ replicate 739 0 @ [0xBB, 0xA7]"
proof -
  have g: "0 \<le> get_ret (hdev example_priv)"
    by (simp add: example_priv_def example_hdev_def)
  have w: "word_of_int 5020 = (5020 :: u16)"
    by simp
  have "buffer (snd (d5next_set_val example_priv (manual_setpoint_off 0) 5020 16)) =
          store_be16 (replicate 66 0 @ [0x13, 0x9C] @ replicate 739 0 @ [0x45, 0xC4]) crc_off 0xBBA7"
    by (simp only: set_val_u16_buffer [OF g] example_downloaded w example_patched
        example_patched_range example_patched_crc)
  also have "\<dots> = replicate 66 0 @ [0x13, 0x9C] @ replicate 739 0 @ [0xBB, 0xA7]"
    by (simp add: store_be16_def put_unaligned_be16_def crc_off_def list_update_append)
  finally show ?thesis .
qed

text \<open>
  Writing control unit 128 to \<open>pwm2\<close> (the fan, internal channel 0) through \<open>d5next_write\<close>
  is the transaction \<open>d5next_set_val\<close> on the manual setpoint of channel 0 with the value
  5020 and the width 16.
\<close>

lemma example_write_is_set_val:
  "d5next_write priv hwmon_pwm hwmon_pwm_input 1 128 =
     d5next_set_val priv (manual_setpoint_off 0) 5020 16"
  by (simp add: d5next_write_def d5next_set_pwm_setpoint_def d5next_set_u16_val_def
      d5next_userspace_to_internal_channel_def fan_channel_is_valid_def
      d5next_pwm_to_percent_def DIV_ROUND_CLOSEST_def c_div_def)

text \<open>
  The claim C2 as stated fails on the trailing checksum: with the all-zero blob (checksum
  0x45C4) downloaded, that transaction uploads a blob whose byte 807 is 0xBB, not the
  downloaded 0x45, and byte 807 is not a byte of the targeted member (bytes 66 and 67).
\<close>

theorem C2_counterexample:
  "manual_setpoint_off 0 = 66
   \<and> buffer (snd (d5next_get_ctrl_data example_priv)) ! 807 = 0x45
   \<and> status_uploads (requests (hdev (snd (d5next_set_val example_priv (manual_setpoint_off 0) 5020 16))))
       = [buffer (snd (d5next_set_val example_priv (manual_setpoint_off 0) 5020 16))]
   \<and> buffer (snd (d5next_set_val example_priv (manual_setpoint_off 0) 5020 16)) ! 807 = 0xBB"
proof -
  have g: "0 \<le> get_ret (hdev example_priv)"
    by (simp add: example_priv_def example_hdev_def)
  have "requests (hdev example_priv) = []"
    by (simp add: example_priv_def example_hdev_def)
  with set_val_uploads [OF g disjI2 [OF refl], of "manual_setpoint_off 0" 5020]
  have f3: "status_uploads (requests (hdev (snd (d5next_set_val example_priv (manual_setpoint_off 0) 5020 16))))
       = [buffer (snd (d5next_set_val example_priv (manual_setpoint_off 0) 5020 16))]"
    by simp
  have "(replicate 66 0 @ [0x13, 0x9C] @ replicate 739 0 @ [0xBB, 0xA7 :: u8]) ! 807 = 0xBB"
    by (simp add: nth_append)
  then have f4: "buffer (snd (d5next_set_val example_priv (manual_setpoint_off 0) 5020 16)) ! 807 = 0xBB"
    by (simp only: example_uploaded)
  have "example_blob ! 807 = 0x45"
    by (simp add: example_blob_def nth_append)
  then have f2: "buffer (snd (d5next_get_ctrl_data example_priv)) ! 807 = 0x45"
    by (simp only: example_downloaded)
  have f1: "manual_setpoint_off 0 = 66"
    by (simp add: manual_setpoint_off_def fan_ctrl_off_def)
  from f1 f2 f3 f4 show ?thesis by blast
qed


text \<open>
  C2 (as amended). In a write transaction of a supported width whose download succeeds,
  the uploaded blob agrees with the downloaded blob at every offset outside the targeted
  member and outside the two bytes of \<open>crc\<close>; a member that lies before \<open>crc\<close> holds the
  written value (big-endian when it is 16 bits wide).
\<close>

theorem C2_write_changes_target_and_crc_only:
  "(0 \<le> get_ret (hdev priv) \<and> (sz = 8 \<or> sz = 16) \<and> i < STATUS_REPORT_SIZE
      \<and> \<not> (to_set \<le> i \<and> i < to_set + sz div 8) \<and> i \<noteq> crc_off \<and> i \<noteq> crc_off + 1 \<longrightarrow>
      status_uploads (requests (hdev (snd (d5next_set_val priv to_set v sz)))) =
        status_uploads (requests (hdev priv)) @ [buffer (snd (d5next_set_val priv to_set v sz))]
    \<and> length (buffer (snd (d5next_set_val priv to_set v sz))) = STATUS_REPORT_SIZE
    \<and> buffer (snd (d5next_set_val priv to_set v sz)) ! i = buffer (snd (d5next_get_ctrl_data priv)) ! i)
   \<and> (0 \<le> get_ret (hdev priv) \<and> to_set + 2 \<le> crc_off \<longrightarrow>
        get_unaligned_be16 (buffer (snd (d5next_set_val priv to_set v 16)) ! to_set)
          (buffer (snd (d5next_set_val priv to_set v 16)) ! (to_set + 1)) = word_of_int v)
   \<and> (0 \<le> get_ret (hdev priv) \<and> to_set < crc_off \<longrightarrow>
        buffer (snd (d5next_set_val priv to_set v 8)) ! to_set = word_of_int v)"
proof (intro conjI impI)
  assume a: "0 \<le> get_ret (hdev priv) \<and> (sz = 8 \<or> sz = 16) \<and> i < STATUS_REPORT_SIZE
      \<and> \<not> (to_set \<le> i \<and> i < to_set + sz div 8) \<and> i \<noteq> crc_off \<and> i \<noteq> crc_off + 1"
  then have g: "0 \<le> get_ret (hdev priv)" and w: "sz = 8 \<or> sz = 16" by simp_all
  show "status_uploads (requests (hdev (snd (d5next_set_val priv to_set v sz)))) =
        status_uploads (requests (hdev priv)) @ [buffer (snd (d5next_set_val priv to_set v sz))]"
    by (rule set_val_uploads [OF g w])
  show "length (buffer (snd (d5next_set_val priv to_set v sz))) = STATUS_REPORT_SIZE"
    using set_val_length [OF g w] by simp
  from w show "buffer (snd (d5next_set_val priv to_set v sz)) ! i =
      buffer (snd (d5next_get_ctrl_data priv)) ! i"
  proof
    assume "sz = 8"
    with a have "i \<noteq> to_set" by auto
    with a \<open>sz = 8\<close> show ?thesis
      by (simp add: set_val_u8_buffer [OF g] store_be16_nth_other)
  next
    assume "sz = 16"
    with a have "i \<noteq> to_set" "i \<noteq> to_set + 1" by auto
    with a \<open>sz = 16\<close> show ?thesis
      by (simp add: set_val_u16_buffer [OF g] store_be16_nth_other)
  qed
next
  assume a: "0 \<le> get_ret (hdev priv) \<and> to_set + 2 \<le> crc_off"
  then have g: "0 \<le> get_ret (hdev priv)" by simp
  let ?patched = "store_be16 (buffer (snd (d5next_get_ctrl_data priv))) to_set (word_of_int v)"
  have "to_set + 1 < length (buffer (snd (d5next_get_ctrl_data priv)))"
    using a by (simp add: get_ctrl_data_length crc_off_def)
  then have "get_unaligned_be16 (?patched ! to_set) (?patched ! (to_set + 1)) = word_of_int v"
    by (rule store_be16_read)
  moreover have "to_set \<noteq> crc_off" "to_set \<noteq> crc_off + 1" "to_set + 1 \<noteq> crc_off"
    "to_set + 1 \<noteq> crc_off + 1"
    using a by simp_all
  ultimately show "get_unaligned_be16 (buffer (snd (d5next_set_val priv to_set v 16)) ! to_set)
          (buffer (snd (d5next_set_val priv to_set v 16)) ! (to_set + 1)) = word_of_int v"
    by (simp add: set_val_u16_buffer [OF g] store_be16_nth_other)
next
  assume a: "0 \<le> get_ret (hdev priv) \<and> to_set < crc_off"
  then have g: "0 \<le> get_ret (hdev priv)" by simp
  have "to_set < length (buffer (snd (d5next_get_ctrl_data priv)))"
    using a by (simp add: get_ctrl_data_length crc_off_def)
  moreover have "to_set \<noteq> crc_off" "to_set \<noteq> crc_off + 1"
    using a by simp_all
  ultimately show "buffer (snd (d5next_set_val priv to_set v 8)) ! to_set = word_of_int v"
    by (simp add: set_val_u8_buffer [OF g] store_be16_nth_other)
qed

theorem C2_write_changes_target_and_crc_only_witness:
  "0 \<le> get_ret (hdev example_priv) \<and> (100 :: nat) < STATUS_REPORT_SIZE
   \<and> \<not> (manual_setpoint_off 0 \<le> 100 \<and> 100 < manual_setpoint_off 0 + 16 div 8)
   \<and> 100 \<noteq> crc_off \<and> 100 \<noteq> crc_off + 1 \<and> manual_setpoint_off 0 + 2 \<le> crc_off
   \<and> buffer (snd (d5next_set_val example_priv (manual_setpoint_off 0) 5020 16)) ! 100 =
       buffer (snd (d5next_get_ctrl_data example_priv)) ! 100
   \<and> get_unaligned_be16
        (buffer (snd (d5next_set_val example_priv (manual_setpoint_off 0) 5020 16)) ! manual_setpoint_off 0)
        (buffer (snd (d5next_set_val example_priv (manual_setpoint_off 0) 5020 16)) ! (manual_setpoint_off 0 + 1))
       = 5020"
proof -
  have g: "0 \<le> get_ret (hdev example_priv)"
    by (simp add: example_priv_def example_hdev_def)
  have o: "manual_setpoint_off 0 = 66"
    by (simp add: manual_setpoint_off_def fan_ctrl_off_def)
  have h: "(100 :: nat) < STATUS_REPORT_SIZE"
    "\<not> (manual_setpoint_off 0 \<le> 100 \<and> 100 < manual_setpoint_off 0 + 16 div 8)"
    "100 \<noteq> crc_off" "100 \<noteq> crc_off + 1" "manual_setpoint_off 0 + 2 \<le> crc_off"
    by (simp_all add: o crc_off_def)
  have w: "word_of_int 5020 = (5020 :: u16)"
    by simp
  from C2_write_changes_target_and_crc_only
    [of example_priv 16 100 "manual_setpoint_off 0" 5020] g h w
  show ?thesis by simp
qed

text \<open>
  C3 (as amended). A write transaction whose width is neither 8 nor 16 bits issues the
  download request and nothing else: no upload and no acknowledgement. It returns
  \<open>-EINVAL\<close> when the download succeeded and \<open>-ENODATA\<close> when it failed; the buffer is
  left as downloaded.
\<close>

theorem C3_unsupported_width_after_download:
  "sz \<noteq> 8 \<and> sz \<noteq> 16 \<longrightarrow>
     requests (hdev (snd (d5next_set_val priv to_set v sz))) =
       requests (hdev priv) @ [GET_REPORT STATUS_REPORT_ID STATUS_REPORT_SIZE]
   \<and> fst (d5next_set_val priv to_set v sz) = (if get_ret (hdev priv) < 0 then - ENODATA else - EINVAL)
   \<and> buffer (snd (d5next_set_val priv to_set v sz)) = buffer (snd (d5next_get_ctrl_data priv))"
proof
  assume a: "sz \<noteq> 8 \<and> sz \<noteq> 16"
  obtain ret p where r: "d5next_get_ctrl_data priv = (ret, p)"
    by (cases "d5next_get_ctrl_data priv")
  from r have ret: "ret = (if get_ret (hdev priv) < 0 then - ENODATA else get_ret (hdev priv))"
    using get_ctrl_data_ret [of priv] by simp
  from r have req: "requests (hdev p) = requests (hdev priv) @ [GET_REPORT STATUS_REPORT_ID STATUS_REPORT_SIZE]"
    using get_ctrl_data_requests [of priv] by simp
  from a r have "d5next_set_val priv to_set v sz = (if ret < 0 then (ret, p) else (- EINVAL, p))"
    by (simp add: d5next_set_val_def)
  with ret req r show "requests (hdev (snd (d5next_set_val priv to_set v sz))) =
       requests (hdev priv) @ [GET_REPORT STATUS_REPORT_ID STATUS_REPORT_SIZE]
   \<and> fst (d5next_set_val priv to_set v sz) = (if get_ret (hdev priv) < 0 then - ENODATA else - EINVAL)
   \<and> buffer (snd (d5next_set_val priv to_set v sz)) = buffer (snd (d5next_get_ctrl_data priv))"
    by (auto split: if_splits)
qed

theorem C3_unsupported_width_after_download_witness:
  "(32 :: nat) \<noteq> 8 \<and> (32 :: nat) \<noteq> 16
   \<and> requests (hdev (snd (d5next_set_val example_priv (manual_setpoint_off 0) 5020 32))) =
       [GET_REPORT STATUS_REPORT_ID STATUS_REPORT_SIZE]
   \<and> fst (d5next_set_val example_priv (manual_setpoint_off 0) 5020 32) = - EINVAL"
  using C3_unsupported_width_after_download [of 32 example_priv "manual_setpoint_off 0" 5020]
  by (simp add: example_priv_def example_hdev_def)

text \<open>
  The claim C3 as stated fails: a write of width 32 returns \<open>-EINVAL\<close> only after the
  download request has been issued.
\<close>

theorem C3_counterexample:
  "fst (d5next_set_val example_priv (manual_setpoint_off 0) 5020 32) = - EINVAL
   \<and> requests (hdev example_priv) = []
   \<and> requests (hdev (snd (d5next_set_val example_priv (manual_setpoint_off 0) 5020 32))) =
       [GET_REPORT STATUS_REPORT_ID STATUS_REPORT_SIZE]"
  by (simp add: d5next_set_val_def d5next_get_ctrl_data_def hid_hw_get_report_def
      example_priv_def example_hdev_def)

section \<open>Freshness of the cached readings\<close>

lemma sint_word_of_int_ulong:
  "- (2 ^ 63) \<le> k \<Longrightarrow> k < 2 ^ 63 \<Longrightarrow> sint (word_of_int k :: ulong) = k"
  by (simp add: sint_sbintrunc' signed_take_bit_int_eq_self)

lemma time_after_elapsed:
  assumes "int d - int a \<le> 2 ^ 63" and "int a - int d < 2 ^ 63"
  shows "time_after (u + of_nat d) (u + of_nat a) = (a < d)"
proof -
  have "u + of_nat a - (u + of_nat d) = (word_of_int (int a - int d) :: ulong)"
    by simp
  then have "sint (u + of_nat a - (u + of_nat d)) = int a - int d"
    using assms by (simp only: sint_word_of_int_ulong)
  then show ?thesis
    by (simp add: time_after_def)
qed

lemma read_stale:
  assumes "2 * HZ < d" and "d \<le> 2 ^ 63"
  shows "d5next_read HZ e priv (updated priv + of_nat d) ty attr channel = (- ENODATA, None, priv)"
proof -
  have "time_after (updated priv + of_nat d) (updated priv + of_nat (2 * HZ))"
    using assms by (subst time_after_elapsed) simp_all
  then show ?thesis
    by (simp add: d5next_read_def STATUS_UPDATE_INTERVAL_def)
qed

lemma read_fresh:
  assumes "d \<le> 2 * HZ" and "HZ < 2 ^ 62"
  shows "\<not> time_after (updated priv + of_nat d) (updated priv + STATUS_UPDATE_INTERVAL HZ)"
  unfolding STATUS_UPDATE_INTERVAL_def
  using assms by (subst time_after_elapsed) simp_all

lemma read_fresh_next_tick:
  assumes "0 < HZ" and "HZ < 2 ^ 62" and "updated priv = t"
  shows "\<not> time_after (t + 1) (updated priv + STATUS_UPDATE_INTERVAL HZ)"
  using read_fresh [of 1 HZ priv] assms by simp

lemma uint_be16_bound: "uint (x :: u16) < 65536"
  using uint_lt2p [of x] by simp

lemma uint_word_of_int_small:
  fixes k :: int
  assumes "0 \<le> k" and "k < 2 ^ LENGTH('a::len)"
  shows "uint (word_of_int k :: 'a word) = k"
  unfolding uint_word_of_int using assms by (rule mod_pos_pos_trivial)

lemma sint_word_of_int_small:
  fixes k :: int
  assumes "- (2 ^ (LENGTH('a::len) - 1)) \<le> k" and "k < 2 ^ (LENGTH('a) - 1)"
  shows "sint (word_of_int k :: 'a word) = k"
  unfolding sint_sbintrunc' using assms by (rule signed_take_bit_int_eq_self)

lemma temp_scaled: "sint (word_of_int (uint (x :: u16) * 10) :: s32) = uint x * 10"
proof (rule sint_word_of_int_small)
  have "- (2 ^ (LENGTH(32) - 1)) \<le> (0 :: int)" by simp
  also have "0 \<le> uint x * 10" by simp
  finally show "- (2 ^ (LENGTH(32) - 1)) \<le> uint x * 10" .
  show "uint x * 10 < 2 ^ (LENGTH(32) - 1)" using uint_be16_bound [of x] by simp
qed

lemma power_scaled: "uint (word_of_int (uint (x :: u16) * 10000) :: u32) = uint x * 10000"
proof (rule uint_word_of_int_small)
  show "0 \<le> uint x * 10000" by simp
  show "uint x * 10000 < 2 ^ LENGTH(32)" using uint_be16_bound [of x] by simp
qed

lemma voltage_scaled: "uint (word_of_int (uint (x :: u16) * 10) :: u16) = uint x * 10 mod 65536"
  unfolding uint_word_of_int by simp

lemma raw_event_updated:
  "updated (snd (d5next_raw_event e priv SENSOR_REPORT_ID data sz t)) = t"
  by (simp add: d5next_raw_event_def)

lemma raw_event_hdev:
  "hdev (snd (d5next_raw_event e priv report_id data sz t)) = hdev priv"
  by (simp add: d5next_raw_event_def)


lemma probe_state:
  assumes "d5next_probe HZ env h j = (0, Some priv)"
  shows "priv = \<lparr>hdev = h, buffer = replicate STATUS_REPORT_SIZE 0, temp_input = 0,
                    speed_input = [0, 0], speed_setpoint = [0, 0], power_input = [0, 0],
                    voltage_input = [0, 0, 0], current_input = [0, 0], serial_number = [0, 0],
                    firmware_version = 0, power_cycles = 0,
                    updated = j - STATUS_UPDATE_INTERVAL HZ\<rparr>"
  using assms by (simp add: d5next_probe_def Let_def split: if_splits)

lemma read_fan_input:
  assumes "0 \<le> get_ret (hdev priv)" and "channel = 0 \<or> channel = 1"
  shows "fst (d5next_read_fan e priv hwmon_fan_input channel) = get_ret (hdev priv)"
    and "fst (snd (d5next_read_fan e priv hwmon_fan_input channel)) =
           Some (uint (speed_input priv ! nat (d5next_userspace_to_internal_channel channel)))"
  using assms get_ctrl_data_ret [of priv] get_ctrl_data_snapshot(2) [of priv]
  by (auto simp add: d5next_read_fan_def Let_def d5next_userspace_to_internal_channel_def
      fan_channel_is_valid_def split: prod.splits)

lemma read_fan_failed:
  assumes "get_ret (hdev priv) < 0"
  shows "fst (d5next_read_fan e priv attr channel) = - ENODATA"
    and "fst (snd (d5next_read_fan e priv attr channel)) = None"
  using assms get_ctrl_data_ret [of priv]
  by (auto simp add: d5next_read_fan_def Let_def split: prod.splits)

text \<open>
  C4 (as amended). With \<open>d\<close> the ticks elapsed since the last update: a read at
  \<open>d > 2 * HZ\<close> (within the half range of the tick counter) fails with \<open>-ENODATA\<close>, stores
  no value and touches nothing, whatever is read; a read at \<open>d \<le> 2 * HZ\<close>, equality
  included, passes the gate. One tick after a sensor report was ingested, the
  temperature, power, voltage and current reads succeed with the values of that report
  (voltage as stored in 16 bits), and so do the speed reads when the configuration
  download they perform succeeds.
\<close>

theorem C4_staleness_gate:
  "(2 * HZ < d \<and> d \<le> 2 ^ 63 \<longrightarrow>
      d5next_read HZ e priv (updated priv + of_nat d) ty attr channel = (- ENODATA, None, priv))
   \<and> (d \<le> 2 * HZ \<and> HZ < 2 ^ 62 \<longrightarrow>
      d5next_read HZ e priv (updated priv + of_nat d) hwmon_temp attr channel =
        (0, Some (sint (temp_input priv)), priv))
   \<and> (0 < HZ \<and> HZ < 2 ^ 62 \<and> priv' = snd (d5next_raw_event e priv SENSOR_REPORT_ID data sz t) \<longrightarrow>
        d5next_read HZ e priv' (t + 1) hwmon_temp attr channel =
          (0, Some (uint (be16_at data COOLANT_TEMP) * 10), priv')
      \<and> d5next_read HZ e priv' (t + 1) hwmon_power attr 0 =
          (0, Some (uint (be16_at data PUMP_POWER) * 10000), priv')
      \<and> d5next_read HZ e priv' (t + 1) hwmon_power attr 1 =
          (0, Some (uint (be16_at data FAN_POWER) * 10000), priv')
      \<and> d5next_read HZ e priv' (t + 1) hwmon_in attr 0 =
          (0, Some (uint (be16_at data PUMP_VOLTAGE) * 10 mod 65536), priv')
      \<and> d5next_read HZ e priv' (t + 1) hwmon_in attr 1 =
          (0, Some (uint (be16_at data FAN_VOLTAGE) * 10 mod 65536), priv')
      \<and> d5next_read HZ e priv' (t + 1) hwmon_in attr 2 =
          (0, Some (uint (be16_at data PLUS_5V_VOLTAGE) * 10 mod 65536), priv')
      \<and> d5next_read HZ e priv' (t + 1) hwmon_curr attr 0 =
          (0, Some (uint (be16_at data PUMP_CURRENT)), priv')
      \<and> d5next_read HZ e priv' (t + 1) hwmon_curr attr 1 =
          (0, Some (uint (be16_at data FAN_CURRENT)), priv')
      \<and> (0 \<le> get_ret (hdev priv) \<longrightarrow>
            fst (d5next_read HZ e priv' (t + 1) hwmon_fan hwmon_fan_input 0) = get_ret (hdev priv)
          \<and> fst (snd (d5next_read HZ e priv' (t + 1) hwmon_fan hwmon_fan_input 0)) =
              Some (uint (be16_at data PUMP_SPEED))
          \<and> fst (snd (d5next_read HZ e priv' (t + 1) hwmon_fan hwmon_fan_input 1)) =
              Some (uint (be16_at data FAN_SPEED))))"
proof (intro conjI impI)
  assume "2 * HZ < d \<and> d \<le> 2 ^ 63"
  then show "d5next_read HZ e priv (updated priv + of_nat d) ty attr channel = (- ENODATA, None, priv)"
    by (simp add: read_stale)
next
  assume "d \<le> 2 * HZ \<and> HZ < 2 ^ 62"
  then have "\<not> time_after (updated priv + of_nat d) (updated priv + STATUS_UPDATE_INTERVAL HZ)"
    by (simp add: read_fresh)
  then show "d5next_read HZ e priv (updated priv + of_nat d) hwmon_temp attr channel =
        (0, Some (sint (temp_input priv)), priv)"
    by (simp add: d5next_read_def)
next
  assume a: "0 < HZ \<and> HZ < 2 ^ 62 \<and> priv' = snd (d5next_raw_event e priv SENSOR_REPORT_ID data sz t)"
  then have p: "priv' = snd (d5next_raw_event e priv SENSOR_REPORT_ID data sz t)"
    by (rule conjunct2 [THEN conjunct2])
  have u: "updated priv' = t"
    unfolding p by (rule raw_event_updated)
  with a have fresh: "\<not> time_after (t + 1) (updated priv' + STATUS_UPDATE_INTERVAL HZ)"
    by (intro read_fresh_next_tick) simp_all
  have fields:
    "temp_input priv' = word_of_int (uint (be16_at data COOLANT_TEMP) * 10)"
    "power_input priv' = [word_of_int (uint (be16_at data PUMP_POWER) * 10000),
                          word_of_int (uint (be16_at data FAN_POWER) * 10000)]"
    "voltage_input priv' = [word_of_int (uint (be16_at data PUMP_VOLTAGE) * 10),
                            word_of_int (uint (be16_at data FAN_VOLTAGE) * 10),
                            word_of_int (uint (be16_at data PLUS_5V_VOLTAGE) * 10)]"
    "current_input priv' = [be16_at data PUMP_CURRENT, be16_at data FAN_CURRENT]"
    "speed_input priv' = [be16_at data FAN_SPEED, be16_at data PUMP_SPEED]"
    unfolding p by (simp_all add: d5next_raw_event_def)
  show "d5next_read HZ e priv' (t + 1) hwmon_temp attr channel =
          (0, Some (uint (be16_at data COOLANT_TEMP) * 10), priv')"
    using fresh by (simp only: d5next_read_def fields temp_scaled if_False hwmon_sensor_types.case)
  show "d5next_read HZ e priv' (t + 1) hwmon_power attr 0 =
          (0, Some (uint (be16_at data PUMP_POWER) * 10000), priv')"
    using fresh power_scaled [of "be16_at data PUMP_POWER"]
    by (simp add: d5next_read_def fields del: PUMP_POWER_def)
  show "d5next_read HZ e priv' (t + 1) hwmon_power attr 1 =
          (0, Some (uint (be16_at data FAN_POWER) * 10000), priv')"
    using fresh power_scaled [of "be16_at data FAN_POWER"]
    by (simp add: d5next_read_def fields del: FAN_POWER_def)
  show "d5next_read HZ e priv' (t + 1) hwmon_in attr 0 =
          (0, Some (uint (be16_at data PUMP_VOLTAGE) * 10 mod 65536), priv')"
    using fresh voltage_scaled [of "be16_at data PUMP_VOLTAGE"]
    by (simp add: d5next_read_def fields del: PUMP_VOLTAGE_def)
  show "d5next_read HZ e priv' (t + 1) hwmon_in attr 1 =
          (0, Some (uint (be16_at data FAN_VOLTAGE) * 10 mod 65536), priv')"
    using fresh voltage_scaled [of "be16_at data FAN_VOLTAGE"]
    by (simp add: d5next_read_def fields del: FAN_VOLTAGE_def)
  show "d5next_read HZ e priv' (t + 1) hwmon_in attr 2 =
          (0, Some (uint (be16_at data PLUS_5V_VOLTAGE) * 10 mod 65536), priv')"
    using fresh voltage_scaled [of "be16_at data PLUS_5V_VOLTAGE"]
    by (simp add: d5next_read_def fields del: PLUS_5V_VOLTAGE_def)
  show "d5next_read HZ e priv' (t + 1) hwmon_curr attr 0 =
          (0, Some (uint (be16_at data PUMP_CURRENT)), priv')"
    using fresh by (simp add: d5next_read_def fields)
  show "d5next_read HZ e priv' (t + 1) hwmon_curr attr 1 =
          (0, Some (uint (be16_at data FAN_CURRENT)), priv')"
    using fresh by (simp add: d5next_read_def fields)
  have h: "hdev priv' = hdev priv"
    unfolding p by (rule raw_event_hdev)
  {
    assume g: "0 \<le> get_ret (hdev priv)"
    then have g': "0 \<le> get_ret (hdev priv')" by (simp add: h)
    have rd: "d5next_read HZ e priv' (t + 1) hwmon_fan hwmon_fan_input c =
        d5next_read_fan e priv' hwmon_fan_input c" for c
      using fresh by (simp add: d5next_read_def)
    show "fst (d5next_read HZ e priv' (t + 1) hwmon_fan hwmon_fan_input 0) = get_ret (hdev priv)"
      unfolding rd using read_fan_input(1) [OF g', of 0 e] by (simp add: h)
    show "fst (snd (d5next_read HZ e priv' (t + 1) hwmon_fan hwmon_fan_input 0)) =
              Some (uint (be16_at data PUMP_SPEED))"
      unfolding rd using read_fan_input(2) [OF g', of 0 e]
      by (simp add: fields d5next_userspace_to_internal_channel_def)
    show "fst (snd (d5next_read HZ e priv' (t + 1) hwmon_fan hwmon_fan_input 1)) =
              Some (uint (be16_at data FAN_SPEED))"
      unfolding rd using read_fan_input(2) [OF g', of 1 e]
      by (simp add: fields d5next_userspace_to_internal_channel_def)
  }
qed


lemma example_report_fields:
  "be16_at example_report COOLANT_TEMP = 2534"
  "be16_at example_report PUMP_SPEED = 2500"
  "be16_at example_report FAN_SPEED = 0"
  by (simp_all add: be16_at_def example_report_def get_unaligned_be16_def)

theorem C4_staleness_gate_witness:
  "2 * 100 < (201 :: nat) \<and> (201 :: nat) \<le> 2 ^ 63 \<and> (200 :: nat) \<le> 2 * 100
   \<and> (0 :: nat) < 100 \<and> (100 :: nat) < 2 ^ 62 \<and> 0 \<le> get_ret (hdev example_priv)
   \<and> d5next_read 100 LittleEndian example_priv (updated example_priv + of_nat 201) hwmon_temp 0 0 =
        (- ENODATA, None, example_priv)
   \<and> d5next_read 100 LittleEndian
        (snd (d5next_raw_event LittleEndian example_priv SENSOR_REPORT_ID example_report 158 1000))
        (1000 + 1) hwmon_temp 0 0 =
        (0, Some 25340,
         snd (d5next_raw_event LittleEndian example_priv SENSOR_REPORT_ID example_report 158 1000))
   \<and> fst (snd (d5next_read 100 LittleEndian
        (snd (d5next_raw_event LittleEndian example_priv SENSOR_REPORT_ID example_report 158 1000))
        (1000 + 1) hwmon_fan hwmon_fan_input 0)) = Some 2500"
proof -
  have g: "0 \<le> get_ret (hdev example_priv)"
    by (simp add: example_priv_def example_hdev_def)
  have n: "2 * 100 < (201 :: nat)" "(201 :: nat) \<le> 2 ^ 63" "(200 :: nat) \<le> 2 * 100"
    "(0 :: nat) < 100" "(100 :: nat) < 2 ^ 62"
    by simp_all
  from C4_staleness_gate [where HZ = 100 and d = 201 and e = LittleEndian and priv = example_priv
      and ty = hwmon_temp and attr = 0 and channel = 0 and data = example_report and sz = 158
      and t = 1000
      and priv' = "snd (d5next_raw_event LittleEndian example_priv SENSOR_REPORT_ID example_report 158 1000)"]
    g n
  show ?thesis
    by (simp only: example_report_fields simp_thms) simp
qed

text \<open>
  The claim C4 as stated fails at the boundary: with \<open>HZ = 100\<close> the interval is 200 ticks,
  and a temperature read exactly 200 ticks after the last update is served. It also
  fails for a speed read one tick after a report when the device does not answer the
  configuration download that the speed read performs.
\<close>

theorem C4_counterexample:
  "updated example_priv = 0 \<and> STATUS_UPDATE_INTERVAL 100 = 200
   \<and> d5next_read 100 LittleEndian example_priv 200 hwmon_temp 0 0 = (0, Some 0, example_priv)
   \<and> fst (d5next_read 100 LittleEndian
        (snd (d5next_raw_event LittleEndian (example_priv\<lparr>hdev := example_hdev\<lparr>get_ret := - 110\<rparr>\<rparr>)
                SENSOR_REPORT_ID example_report 158 1000))
        1001 hwmon_fan hwmon_fan_input 0) = - ENODATA"
  by (simp add: d5next_read_def time_after_def STATUS_UPDATE_INTERVAL_def example_priv_def
      d5next_raw_event_def d5next_read_fan_def d5next_get_ctrl_data_def hid_hw_get_report_def
      example_hdev_def)

section \<open>Telemetry ingestion never looks at the length\<close>

text \<open>
  The claim C9 as stated fails: a report with the sensor tag that is only 8 bytes long is
  not dropped. The fixed offsets are read from the memory behind it, and the snapshot and
  its timestamp are overwritten.
\<close>

theorem C9_counterexample:
  "fst (d5next_raw_event LittleEndian example_priv SENSOR_REPORT_ID example_report 8 1000) = 0
   \<and> updated example_priv = 0
   \<and> updated (snd (d5next_raw_event LittleEndian example_priv SENSOR_REPORT_ID example_report 8 1000)) = 1000
   \<and> speed_input example_priv = [0, 0]
   \<and> speed_input (snd (d5next_raw_event LittleEndian example_priv SENSOR_REPORT_ID example_report 8 1000))
       = [0, 2500]"
  by (simp add: d5next_raw_event_def example_priv_def example_report_fields [simplified])

lemma be16_value:
  "uint (get_unaligned_be16 p0 p1) = 256 * uint p0 + uint p1"
proof -
  have b0: "uint p0 < 256" "uint p1 < 256"
    using uint_lt2p [of p0] uint_lt2p [of p1] by simp_all
  have u1: "uint (ucast p1 :: u16) = uint p1"
    using b0 by (simp add: unsigned_ucast_eq take_bit_int_eq_self)
  have u0: "uint (ucast p0 :: u16) = uint p0"
    using b0 by (simp add: unsigned_ucast_eq take_bit_int_eq_self)
  have "uint (push_bit 8 (ucast p0 :: u16)) = take_bit 16 (push_bit 8 (uint p0))"
    by (simp add: unsigned_push_bit_eq u0)
  also have "\<dots> = 256 * uint p0"
    using b0 by (simp add: take_bit_int_eq_self push_bit_eq_mult)
  finally have h: "uint (push_bit 8 (ucast p0 :: u16)) = 256 * uint p0" .
  have "(push_bit 8 (ucast p0) OR ucast p1 :: u16) = push_bit 8 (ucast p0) + ucast p1"
    by (rule disjunctive_add [symmetric]) (auto simp add: bit_simps dest: bit_imp_le_length)
  then have "uint (push_bit 8 (ucast p0) OR ucast p1 :: u16) = (256 * uint p0 + uint p1) mod 2 ^ 16"
    by (simp only: uint_word_ariths h u1) simp
  also have "\<dots> = 256 * uint p0 + uint p1"
    using b0 by (intro mod_pos_pos_trivial) simp_all
  finally show ?thesis
    by (simp only: get_unaligned_be16_def)
qed

lemma be16_at_value: "uint (be16_at data off) = 256 * uint (data off) + uint (data (off + 1))"
  unfolding be16_at_def by (rule be16_value)

text \<open>
  C9 (as amended). A message is dropped, without error and leaving the whole state as it
  was, exactly when its report id is not the sensor report id. A message with the sensor
  report id is ingested whatever its length: the result does not depend on the length,
  the return value is 0, the timestamp becomes the current tick, and every field of the
  snapshot is replaced by what the bytes at its fixed offset decode to (16-bit and 32-bit
  big-endian reads; temperature and voltage times 10, power times 10000, voltage kept in
  16 bits; the setpoints as \<open>d5next_percent_to_pwm\<close> converts the byte at their offset).
  The configuration buffer and the device are not touched.
\<close>

theorem C9_only_the_tag_is_checked:
  "(report_id \<noteq> SENSOR_REPORT_ID \<longrightarrow> d5next_raw_event e priv report_id data sz t = (0, priv))
   \<and> (report_id = SENSOR_REPORT_ID
        \<and> priv' = snd (d5next_raw_event e priv report_id data sz t) \<longrightarrow>
        fst (d5next_raw_event e priv report_id data sz t) = 0
      \<and> d5next_raw_event e priv report_id data sz t = d5next_raw_event e priv report_id data sz' t
      \<and> updated priv' = t
      \<and> serial_number priv' =
          [ucast (be16_at data SERIAL_FIRST_PART), ucast (be16_at data SERIAL_SECOND_PART)]
      \<and> firmware_version priv' = be16_at data FIRMWARE_VERSION
      \<and> power_cycles priv' = be32_at data POWER_CYCLES
      \<and> sint (temp_input priv') = uint (be16_at data COOLANT_TEMP) * 10
      \<and> speed_input priv' = [be16_at data FAN_SPEED, be16_at data PUMP_SPEED]
      \<and> speed_setpoint priv' =
          [word_of_int (d5next_percent_to_pwm e (ucast (data FAN_SETPOINT))),
           word_of_int (d5next_percent_to_pwm e (ucast (data PUMP_SETPOINT)))]
      \<and> map uint (power_input priv') =
          [uint (be16_at data PUMP_POWER) * 10000, uint (be16_at data FAN_POWER) * 10000]
      \<and> map uint (voltage_input priv') =
          [uint (be16_at data PUMP_VOLTAGE) * 10 mod 65536,
           uint (be16_at data FAN_VOLTAGE) * 10 mod 65536,
           uint (be16_at data PLUS_5V_VOLTAGE) * 10 mod 65536]
      \<and> current_input priv' = [be16_at data PUMP_CURRENT, be16_at data FAN_CURRENT]
      \<and> uint (be16_at data PUMP_SPEED) = 256 * uint (data PUMP_SPEED) + uint (data (PUMP_SPEED + 1))
      \<and> hdev priv' = hdev priv
      \<and> buffer priv' = buffer priv)"
proof (intro conjI impI)
  assume "report_id \<noteq> SENSOR_REPORT_ID"
  then show "d5next_raw_event e priv report_id data sz t = (0, priv)"
    by (simp add: d5next_raw_event_def)
next
  assume a: "report_id = SENSOR_REPORT_ID
        \<and> priv' = snd (d5next_raw_event e priv report_id data sz t)"
  then have p: "priv' = snd (d5next_raw_event e priv SENSOR_REPORT_ID data sz t)"
    and r: "report_id = SENSOR_REPORT_ID"
    by simp_all
  have fields:
    "temp_input priv' = word_of_int (uint (be16_at data COOLANT_TEMP) * 10)"
    "power_input priv' = [word_of_int (uint (be16_at data PUMP_POWER) * 10000),
                          word_of_int (uint (be16_at data FAN_POWER) * 10000)]"
    "voltage_input priv' = [word_of_int (uint (be16_at data PUMP_VOLTAGE) * 10),
                            word_of_int (uint (be16_at data FAN_VOLTAGE) * 10),
                            word_of_int (uint (be16_at data PLUS_5V_VOLTAGE) * 10)]"
    unfolding p by (simp_all add: d5next_raw_event_def)
  show "fst (d5next_raw_event e priv report_id data sz t) = 0"
    by (simp add: d5next_raw_event_def)
  show "d5next_raw_event e priv report_id data sz t = d5next_raw_event e priv report_id data sz' t"
    by (simp add: d5next_raw_event_def)
  show "updated priv' = t"
    unfolding p by (rule raw_event_updated)
  show "serial_number priv' =
          [ucast (be16_at data SERIAL_FIRST_PART), ucast (be16_at data SERIAL_SECOND_PART)]"
    unfolding p by (simp add: d5next_raw_event_def)
  show "firmware_version priv' = be16_at data FIRMWARE_VERSION"
    unfolding p by (simp add: d5next_raw_event_def)
  show "power_cycles priv' = be32_at data POWER_CYCLES"
    unfolding p by (simp add: d5next_raw_event_def)
  show "sint (temp_input priv') = uint (be16_at data COOLANT_TEMP) * 10"
    by (simp only: fields temp_scaled)
  show "speed_input priv' = [be16_at data FAN_SPEED, be16_at data PUMP_SPEED]"
    unfolding p by (simp add: d5next_raw_event_def)
  show "speed_setpoint priv' =
          [word_of_int (d5next_percent_to_pwm e (ucast (data FAN_SETPOINT))),
           word_of_int (d5next_percent_to_pwm e (ucast (data PUMP_SETPOINT)))]"
    unfolding p by (simp add: d5next_raw_event_def)
  show "map uint (power_input priv') =
          [uint (be16_at data PUMP_POWER) * 10000, uint (be16_at data FAN_POWER) * 10000]"
    by (simp only: fields list.map power_scaled)
  show "map uint (voltage_input priv') =
          [uint (be16_at data PUMP_VOLTAGE) * 10 mod 65536,
           uint (be16_at data FAN_VOLTAGE) * 10 mod 65536,
           uint (be16_at data PLUS_5V_VOLTAGE) * 10 mod 65536]"
    by (simp only: fields list.map voltage_scaled)
  show "current_input priv' = [be16_at data PUMP_CURRENT, be16_at data FAN_CURRENT]"
    unfolding p by (simp add: d5next_raw_event_def)
  show "uint (be16_at data PUMP_SPEED) = 256 * uint (data PUMP_SPEED) + uint (data (PUMP_SPEED + 1))"
    by (rule be16_at_value)
  show "hdev priv' = hdev priv"
    unfolding p by (rule raw_event_hdev)
  show "buffer priv' = buffer priv"
    unfolding p by (simp add: d5next_raw_event_def)
qed

theorem C9_only_the_tag_is_checked_witness:
  "STATUS_REPORT_ID \<noteq> SENSOR_REPORT_ID
   \<and> d5next_raw_event LittleEndian example_priv STATUS_REPORT_ID example_report 8 1000 = (0, example_priv)
   \<and> updated (snd (d5next_raw_event LittleEndian example_priv SENSOR_REPORT_ID example_report 8 1000)) = 1000
   \<and> d5next_raw_event LittleEndian example_priv SENSOR_REPORT_ID example_report 8 1000 =
       d5next_raw_event LittleEndian example_priv SENSOR_REPORT_ID example_report 158 1000
   \<and> sint (temp_input (snd (d5next_raw_event LittleEndian example_priv SENSOR_REPORT_ID
                                example_report 8 1000))) = 25340
   \<and> speed_input (snd (d5next_raw_event LittleEndian example_priv SENSOR_REPORT_ID
                          example_report 8 1000)) = [0, 2500]"
proof -
  have n: "STATUS_REPORT_ID \<noteq> SENSOR_REPORT_ID"
    by simp
  from C9_only_the_tag_is_checked [where report_id = STATUS_REPORT_ID and e = LittleEndian
      and priv = example_priv and data = example_report and sz = 8 and t = 1000] n
  have a: "d5next_raw_event LittleEndian example_priv STATUS_REPORT_ID example_report 8 1000 = (0, example_priv)"
    by blast
  from C9_only_the_tag_is_checked [where report_id = SENSOR_REPORT_ID and e = LittleEndian
      and priv = example_priv and data = example_report and sz = 8 and t = 1000 and sz' = 158
      and priv' = "snd (d5next_raw_event LittleEndian example_priv SENSOR_REPORT_ID example_report 8 1000)"]
  have b: "updated (snd (d5next_raw_event LittleEndian example_priv SENSOR_REPORT_ID example_report 8 1000)) = 1000"
    and c: "d5next_raw_event LittleEndian example_priv SENSOR_REPORT_ID example_report 8 1000 =
       d5next_raw_event LittleEndian example_priv SENSOR_REPORT_ID example_report 158 1000"
    and d: "sint (temp_input (snd (d5next_raw_event LittleEndian example_priv SENSOR_REPORT_ID
                                example_report 8 1000))) = uint (be16_at example_report COOLANT_TEMP) * 10"
    and f: "speed_input (snd (d5next_raw_event LittleEndian example_priv SENSOR_REPORT_ID
                          example_report 8 1000)) =
              [be16_at example_report FAN_SPEED, be16_at example_report PUMP_SPEED]"
    by blast+
  from d have d': "sint (temp_input (snd (d5next_raw_event LittleEndian example_priv SENSOR_REPORT_ID
                                example_report 8 1000))) = 25340"
    by (simp only: example_report_fields) simp
  from f have f': "speed_input (snd (d5next_raw_event LittleEndian example_priv SENSOR_REPORT_ID
                          example_report 8 1000)) = [0, 2500]"
    by (simp only: example_report_fields)
  from n a b c d' f' show ?thesis by blast
qed

section \<open>The first tick after attach\<close>

text \<open>
  C10 (as amended). After a successful attach at tick \<open>j\<close> the timestamp is
  \<open>j - STATUS_UPDATE_INTERVAL\<close>. A read in that same tick passes the gate and returns the
  zeroed snapshot: temperature, power, voltage and current unconditionally, a speed when
  the configuration download that the speed read performs succeeds; when that download
  fails the speed read returns \<open>-ENODATA\<close> and no value. A read \<open>k\<close> ticks later, \<open>0 < k\<close>
  (within the half range of the tick counter), with no report in between, fails with
  \<open>-ENODATA\<close>.
\<close>

theorem C10_read_at_attach_tick:
  "d5next_probe HZ env h j = (0, Some priv) \<longrightarrow>
     updated priv = j - STATUS_UPDATE_INTERVAL HZ
   \<and> d5next_read HZ e priv j hwmon_temp attr channel = (0, Some 0, priv)
   \<and> (channel = 0 \<or> channel = 1 \<longrightarrow>
        d5next_read HZ e priv j hwmon_power attr channel = (0, Some 0, priv)
      \<and> d5next_read HZ e priv j hwmon_curr attr channel = (0, Some 0, priv))
   \<and> (channel = 0 \<or> channel = 1 \<or> channel = 2 \<longrightarrow>
        d5next_read HZ e priv j hwmon_in attr channel = (0, Some 0, priv))
   \<and> ((channel = 0 \<or> channel = 1) \<and> 0 \<le> get_ret h \<longrightarrow>
        fst (d5next_read HZ e priv j hwmon_fan hwmon_fan_input channel) = get_ret h
      \<and> fst (snd (d5next_read HZ e priv j hwmon_fan hwmon_fan_input channel)) = Some 0)
   \<and> (get_ret h < 0 \<longrightarrow>
        fst (d5next_read HZ e priv j hwmon_fan hwmon_fan_input channel) = - ENODATA
      \<and> fst (snd (d5next_read HZ e priv j hwmon_fan hwmon_fan_input channel)) = None)
   \<and> (0 < k \<and> k \<le> 2 ^ 63 \<longrightarrow>
        d5next_read HZ e priv (j + of_nat k) ty attr channel = (- ENODATA, None, priv))"
proof
  assume "d5next_probe HZ env h j = (0, Some priv)"
  note st = probe_state [OF this]
  have u: "updated priv = j - STATUS_UPDATE_INTERVAL HZ"
    and z: "temp_input priv = 0" "power_input priv = [0, 0]" "current_input priv = [0, 0]"
      "voltage_input priv = [0, 0, 0]" "speed_input priv = [0, 0]" "hdev priv = h"
    by (simp_all add: st)
  have same: "\<not> time_after j (updated priv + STATUS_UPDATE_INTERVAL HZ)"
    by (simp add: u time_after_def)
  have later: "time_after (j + of_nat k) (updated priv + STATUS_UPDATE_INTERVAL HZ)"
    if "0 < k" "k \<le> 2 ^ 63"
    using that time_after_elapsed [of k 0 j] by (simp add: u)
  have fan: "d5next_read HZ e priv j hwmon_fan hwmon_fan_input channel =
      d5next_read_fan e priv hwmon_fan_input channel"
    using same by (simp add: d5next_read_def)
  have speed0: "speed_input priv ! nat (d5next_userspace_to_internal_channel channel) = 0"
    if "channel = 0 \<or> channel = 1"
    using that by (auto simp add: z d5next_userspace_to_internal_channel_def)
  show "updated priv = j - STATUS_UPDATE_INTERVAL HZ
   \<and> d5next_read HZ e priv j hwmon_temp attr channel = (0, Some 0, priv)
   \<and> (channel = 0 \<or> channel = 1 \<longrightarrow>
        d5next_read HZ e priv j hwmon_power attr channel = (0, Some 0, priv)
      \<and> d5next_read HZ e priv j hwmon_curr attr channel = (0, Some 0, priv))
   \<and> (channel = 0 \<or> channel = 1 \<or> channel = 2 \<longrightarrow>
        d5next_read HZ e priv j hwmon_in attr channel = (0, Some 0, priv))
   \<and> ((channel = 0 \<or> channel = 1) \<and> 0 \<le> get_ret h \<longrightarrow>
        fst (d5next_read HZ e priv j hwmon_fan hwmon_fan_input channel) = get_ret h
      \<and> fst (snd (d5next_read HZ e priv j hwmon_fan hwmon_fan_input channel)) = Some 0)
   \<and> (get_ret h < 0 \<longrightarrow>
        fst (d5next_read HZ e priv j hwmon_fan hwmon_fan_input channel) = - ENODATA
      \<and> fst (snd (d5next_read HZ e priv j hwmon_fan hwmon_fan_input channel)) = None)
   \<and> (0 < k \<and> k \<le> 2 ^ 63 \<longrightarrow>
        d5next_read HZ e priv (j + of_nat k) ty attr channel = (- ENODATA, None, priv))"
  proof (intro conjI impI)
    show "updated priv = j - STATUS_UPDATE_INTERVAL HZ" by (rule u)
    show "d5next_read HZ e priv j hwmon_temp attr channel = (0, Some 0, priv)"
      using same by (simp add: d5next_read_def z)
  next
    assume "channel = 0 \<or> channel = 1"
    then show "d5next_read HZ e priv j hwmon_power attr channel = (0, Some 0, priv)"
      and "d5next_read HZ e priv j hwmon_curr attr channel = (0, Some 0, priv)"
      using same by (auto simp add: d5next_read_def z)
  next
    assume "channel = 0 \<or> channel = 1 \<or> channel = 2"
    then show "d5next_read HZ e priv j hwmon_in attr channel = (0, Some 0, priv)"
      using same by (auto simp add: d5next_read_def z)
  next
    assume a: "(channel = 0 \<or> channel = 1) \<and> 0 \<le> get_ret h"
    then have c: "channel = 0 \<or> channel = 1" and g: "0 \<le> get_ret (hdev priv)"
      by (simp_all add: z)
    show "fst (d5next_read HZ e priv j hwmon_fan hwmon_fan_input channel) = get_ret h"
      unfolding fan using read_fan_input(1) [OF g c, of e] by (simp add: z)
    show "fst (snd (d5next_read HZ e priv j hwmon_fan hwmon_fan_input channel)) = Some 0"
      unfolding fan using read_fan_input(2) [OF g c, of e] speed0 [OF c] by simp
  next
    assume "get_ret h < 0"
    then have g: "get_ret (hdev priv) < 0"
      by (simp add: z)
    show "fst (d5next_read HZ e priv j hwmon_fan hwmon_fan_input channel) = - ENODATA"
      unfolding fan using read_fan_failed(1) [OF g] by simp
    show "fst (snd (d5next_read HZ e priv j hwmon_fan hwmon_fan_input channel)) = None"
      unfolding fan using read_fan_failed(2) [OF g] by simp
  next
    assume "0 < k \<and> k \<le> 2 ^ 63"
    then show "d5next_read HZ e priv (j + of_nat k) ty attr channel = (- ENODATA, None, priv)"
      using later by (simp add: d5next_read_def)
  qed
qed

theorem C10_read_at_attach_tick_witness:
  "d5next_probe 100 example_env example_hdev 1000 = (0, Some (example_priv\<lparr>updated := 800\<rparr>))
   \<and> (0 :: nat) < 1 \<and> (1 :: nat) \<le> 2 ^ 63
   \<and> updated (example_priv\<lparr>updated := 800\<rparr>) = 1000 - STATUS_UPDATE_INTERVAL 100
   \<and> d5next_read 100 LittleEndian (example_priv\<lparr>updated := 800\<rparr>) 1000 hwmon_temp 0 0 =
       (0, Some 0, example_priv\<lparr>updated := 800\<rparr>)
   \<and> d5next_read 100 LittleEndian (example_priv\<lparr>updated := 800\<rparr>) (1000 + of_nat 1) hwmon_temp 0 0 =
       (- ENODATA, None, example_priv\<lparr>updated := 800\<rparr>)"
proof -
  have p: "d5next_probe 100 example_env example_hdev 1000 = (0, Some (example_priv\<lparr>updated := 800\<rparr>))"
    by (simp add: d5next_probe_def example_env_def example_priv_def STATUS_UPDATE_INTERVAL_def)
  have n: "(0 :: nat) < 1" "(1 :: nat) \<le> 2 ^ 63"
    by simp_all
  from C10_read_at_attach_tick [where HZ = 100 and env = example_env and h = example_hdev
      and j = 1000 and priv = "example_priv\<lparr>updated := 800\<rparr>" and e = LittleEndian
      and attr = 0 and channel = 0 and k = 1 and ty = hwmon_temp] p n
  show ?thesis by simp
qed

text \<open>
  The claim C10 as stated fails for the speeds: on a device that does not answer the
  configuration download, a speed read in the attach tick returns \<open>-ENODATA\<close> and no value,
  while the temperature read in that tick returns 0.
\<close>

theorem C10_counterexample:
  "d5next_probe 100 example_env (example_hdev\<lparr>get_ret := - 110\<rparr>) 1000 =
     (0, Some (example_priv\<lparr>hdev := example_hdev\<lparr>get_ret := - 110\<rparr>, updated := 800\<rparr>))
   \<and> fst (d5next_read 100 LittleEndian
        (example_priv\<lparr>hdev := example_hdev\<lparr>get_ret := - 110\<rparr>, updated := 800\<rparr>)
        1000 hwmon_fan hwmon_fan_input 0) = - ENODATA
   \<and> fst (snd (d5next_read 100 LittleEndian
        (example_priv\<lparr>hdev := example_hdev\<lparr>get_ret := - 110\<rparr>, updated := 800\<rparr>)
        1000 hwmon_fan hwmon_fan_input 0)) = None
   \<and> fst (snd (d5next_read 100 LittleEndian
        (example_priv\<lparr>hdev := example_hdev\<lparr>get_ret := - 110\<rparr>, updated := 800\<rparr>)
        1000 hwmon_temp 0 0)) = Some 0"
  by (simp add: d5next_probe_def example_env_def example_priv_def STATUS_UPDATE_INTERVAL_def
      d5next_read_def time_after_def d5next_read_fan_def d5next_get_ctrl_data_def
      hid_hw_get_report_def example_hdev_def)

section \<open>Where the code departs from the specification\<close>

lemma set_val_u16_target:
  assumes "0 \<le> get_ret (hdev priv)" and "to_set + 2 \<le> crc_off"
  shows "get_unaligned_be16 (buffer (snd (d5next_set_val priv to_set v 16)) ! to_set)
           (buffer (snd (d5next_set_val priv to_set v 16)) ! (to_set + 1)) = word_of_int v"
proof -
  let ?patched = "store_be16 (buffer (snd (d5next_get_ctrl_data priv))) to_set (word_of_int v)"
  have "to_set + 1 < length (buffer (snd (d5next_get_ctrl_data priv)))"
    using assms by (simp add: get_ctrl_data_length crc_off_def)
  then have "get_unaligned_be16 (?patched ! to_set) (?patched ! (to_set + 1)) = word_of_int v"
    by (rule store_be16_read)
  moreover have "to_set \<noteq> crc_off" "to_set \<noteq> crc_off + 1" "to_set + 1 \<noteq> crc_off"
    "to_set + 1 \<noteq> crc_off + 1"
    using assms by simp_all
  ultimately show ?thesis
    by (simp add: set_val_u16_buffer [OF assms(1)] store_be16_nth_other)
qed

lemma set_val_u16_other:
  assumes "0 \<le> get_ret (hdev priv)"
    and "i \<noteq> to_set" "i \<noteq> to_set + 1" "i \<noteq> crc_off" "i \<noteq> crc_off + 1"
  shows "buffer (snd (d5next_set_val priv to_set v 16)) ! i = buffer (snd (d5next_get_ctrl_data priv)) ! i"
  using assms(2-) by (simp add: set_val_u16_buffer [OF assms(1)] store_be16_nth_other)

text \<open>
  C5. Ingestion does not decode the setpoint fields as 16-bit big-endian values: it reads
  the single byte at 0x77 and at 0x79 and hands it to \<open>d5next_percent_to_pwm\<close>. For the
  report whose pump setpoint is 5000 (50.00 %, control unit 128) the snapshot gets 124 on a
  little-endian host and 0 on a big-endian host. The speed fields are decoded as the claim
  says: raw 2500 is stored as 2500.
\<close>

theorem C5_setpoint_read_from_one_byte:
  "be16_at example_report PUMP_SETPOINT = 5000
   \<and> d5next_percent_to_pwm LittleEndian
        (load_u16 LittleEndian (example_report PUMP_SETPOINT) (example_report (PUMP_SETPOINT + 1))) = 128
   \<and> speed_setpoint (snd (d5next_raw_event LittleEndian example_priv SENSOR_REPORT_ID
                             example_report 158 1000)) ! 1 = 124
   \<and> speed_setpoint (snd (d5next_raw_event BigEndian example_priv SENSOR_REPORT_ID
                             example_report 158 1000)) ! 1 = 0
   \<and> speed_input (snd (d5next_raw_event LittleEndian example_priv SENSOR_REPORT_ID
                          example_report 158 1000)) ! 1 = 2500"
  by (simp add: d5next_raw_event_def be16_at_def example_report_def get_unaligned_be16_def
      d5next_percent_to_pwm_def load_u16_def ntohs_def swab16_def DIV_ROUND_CLOSEST_def c_div_def)

lemma manual_downloaded: "buffer (snd (d5next_get_ctrl_data manual_priv)) = manual_blob"
  by (simp add: get_ctrl_data_buffer manual_priv_def example_priv_def example_hdev_def
      manual_blob_def)

lemma manual_blob_bytes:
  "manual_blob ! mode_off 1 = FAN_CONTROL_MANUAL"
  "manual_blob ! manual_setpoint_off 1 = 0x27"
  "manual_blob ! (manual_setpoint_off 1 + 1) = 0x10"
  by (simp_all add: manual_blob_def mode_off_def manual_setpoint_off_def fan_ctrl_off_def
      nth_append)

lemma manual_blob_checksum:
  "crc16_usb (take 806 (drop 1 manual_blob)) =
     get_unaligned_be16 (manual_blob ! crc_off) (manual_blob ! (crc_off + 1))"
proof -
  have "take 806 (drop 1 manual_blob) = replicate 150 0 @ [0x27, 0x10] @ replicate 654 0"
    by (simp add: manual_blob_def)
  moreover have "crc16_usb_bits 1200 0xFFFF = 0x43CE"
    by (simp add: crc16_usb_bits_numeral crc16_usb_bit_def)
  moreover have "crc16_usb_bits 5232 (crc16_usb_byte (crc16_usb_byte 0x43CE 0x27) 0x10) = 0x032A"
    by (simp add: crc16_usb_bits_numeral crc16_usb_byte_def crc16_usb_bit_def)
  moreover have "get_unaligned_be16 (manual_blob ! crc_off) (manual_blob ! (crc_off + 1)) = 0xFCD5"
    by (simp add: manual_blob_def crc_off_def nth_append get_unaligned_be16_def)
  ultimately show ?thesis
    using crc16_usb_zero_run [where c = "0xFFFF" and n = 150 and rest = "[0x27, 0x10] @ replicate 654 0"]
      crc16_usb_zero_run [where c = "crc16_usb_byte (crc16_usb_byte 0x43CE 0x27) 0x10" and n = 654 and rest = "[]"]
    by (simp add: crc16_usb_def)
qed

text \<open>
  C6. In manual mode \<open>d5next_read_pwm\<close> stores the \<open>manual_setpoint\<close> member as it lies in
  the buffer, a host-order load of the big-endian field, without \<open>ntohs\<close> and without
  \<open>d5next_percent_to_pwm\<close>. With the pump in manual mode at 100.00 % a read of
  \<open>pwm1_input\<close> gives 4135 on a little-endian host and 10000 on a big-endian host; the
  conversion would give 255.
\<close>

theorem C6_manual_setpoint_returned_raw:
  "fst (snd (d5next_read 100 LittleEndian manual_priv 0 hwmon_pwm hwmon_pwm_input 0)) = Some 4135
   \<and> fst (snd (d5next_read 100 BigEndian manual_priv 0 hwmon_pwm hwmon_pwm_input 0)) = Some 10000
   \<and> d5next_percent_to_pwm LittleEndian (load_u16 LittleEndian 0x27 0x10) = 255"
proof -
  have fresh: "\<not> time_after 0 (updated manual_priv + STATUS_UPDATE_INTERVAL 100)"
    by (simp add: time_after_def manual_priv_def example_priv_def STATUS_UPDATE_INTERVAL_def)
  have ret: "fst (d5next_get_ctrl_data manual_priv) = 809"
    by (simp add: get_ctrl_data_ret manual_priv_def example_priv_def example_hdev_def)
  obtain r p where dl: "d5next_get_ctrl_data manual_priv = (r, p)"
    by (cases "d5next_get_ctrl_data manual_priv")
  with ret manual_downloaded have rp: "r = 809" "buffer p = manual_blob"
    by simp_all
  have rd: "fst (snd (d5next_read_pwm e manual_priv hwmon_pwm_input 0)) =
      Some (uint (load_u16 e 0x27 0x10))" for e
    using manual_blob_bytes
    by (simp add: d5next_read_pwm_def dl rp d5next_userspace_to_internal_channel_def
        fan_channel_is_valid_def Let_def)
  have gate: "d5next_read 100 e manual_priv 0 hwmon_pwm hwmon_pwm_input 0 =
      d5next_read_pwm e manual_priv hwmon_pwm_input 0" for e
    using fresh by (simp add: d5next_read_def)
  have le: "fst (snd (d5next_read 100 LittleEndian manual_priv 0 hwmon_pwm hwmon_pwm_input 0)) = Some 4135"
    unfolding gate rd by (simp add: load_u16_def)
  have be: "fst (snd (d5next_read 100 BigEndian manual_priv 0 hwmon_pwm hwmon_pwm_input 0)) = Some 10000"
    unfolding gate rd by (simp add: load_u16_def)
  have cv: "d5next_percent_to_pwm LittleEndian (load_u16 LittleEndian 0x27 0x10) = 255"
    by (simp add: load_u16_def d5next_percent_to_pwm_def ntohs_def swab16_def
        DIV_ROUND_CLOSEST_def c_div_def)
  from le be cv show ?thesis by blast
qed

text \<open>
  C7. The attributes \<open>pwmN_min\<close> and \<open>pwmN_max\<close> are declared with \<open>d5next_set_auto_temp\<close> as
  their store callback. Writing 128 to \<open>pwm1_min\<close> leaves \<open>min_pwm\<close> of the pump's
  \<open>fan_properties\<close> untouched and stores 13 (128 divided by 10, the temperature scaling) in
  \<open>curve.temps[18]\<close>, which is \<open>curve.powers[2]\<close>; the percent encoding of 128 is 5020.
\<close>

theorem C7_pwm_min_store_patches_the_curve:
  "temps_off 1 IDX_MIN_PWM = powers_off 1 2
   \<and> status_uploads (requests (hdev (snd (pwm_min_store example_priv 1 (Some 128))))) =
       [buffer (snd (pwm_min_store example_priv 1 (Some 128)))]
   \<and> get_unaligned_be16 (buffer (snd (pwm_min_store example_priv 1 (Some 128))) ! powers_off 1 2)
        (buffer (snd (pwm_min_store example_priv 1 (Some 128))) ! (powers_off 1 2 + 1)) = 13
   \<and> get_unaligned_be16 (buffer (snd (pwm_min_store example_priv 1 (Some 128))) ! min_pwm_off 1)
        (buffer (snd (pwm_min_store example_priv 1 (Some 128))) ! (min_pwm_off 1 + 1)) = 0
   \<and> d5next_pwm_to_percent 128 = 5020"
proof -
  have g: "0 \<le> get_ret (hdev example_priv)"
    by (simp add: example_priv_def example_hdev_def)
  have req: "requests (hdev example_priv) = []"
    by (simp add: example_priv_def example_hdev_def)
  have off: "temps_off 1 IDX_MIN_PWM = powers_off 1 2"
    by (simp add: temps_off_def powers_off_def)
  have st: "pwm_min_store example_priv 1 (Some 128) = d5next_set_val example_priv (powers_off 1 2) 13 16"
    by (simp add: pwm_min_store_def d5next_set_auto_temp_def d5next_set_u16_val_def
        d5next_userspace_to_internal_channel_def fan_channel_is_valid_def
        DIV_ROUND_CLOSEST_long_def wrap_long_def c_div_def temps_off_def powers_off_def)
  have up: "status_uploads (requests (hdev (snd (d5next_set_val example_priv (powers_off 1 2) 13 16)))) =
       [buffer (snd (d5next_set_val example_priv (powers_off 1 2) 13 16))]"
    using set_val_uploads [OF g disjI2 [OF refl], of "powers_off 1 2" 13] req by simp
  have tgt: "get_unaligned_be16
        (buffer (snd (d5next_set_val example_priv (powers_off 1 2) 13 16)) ! powers_off 1 2)
        (buffer (snd (d5next_set_val example_priv (powers_off 1 2) 13 16)) ! (powers_off 1 2 + 1)) = 13"
    using set_val_u16_target [OF g, of "powers_off 1 2" 13]
    by (simp add: powers_off_def fan_ctrl_off_def crc_off_def)
  have zero: "example_blob ! min_pwm_off 1 = 0" "example_blob ! (min_pwm_off 1 + 1) = 0"
    by (simp_all add: example_blob_def min_pwm_off_def fan_properties_off_def nth_append)
  have m0: "buffer (snd (d5next_set_val example_priv (powers_off 1 2) 13 16)) ! min_pwm_off 1 = 0"
    using set_val_u16_other [OF g, of "min_pwm_off 1" "powers_off 1 2" 13] zero(1)
    by (simp add: example_downloaded min_pwm_off_def fan_properties_off_def powers_off_def
        fan_ctrl_off_def crc_off_def)
  have m1: "buffer (snd (d5next_set_val example_priv (powers_off 1 2) 13 16)) ! (min_pwm_off 1 + 1) = 0"
    using set_val_u16_other [OF g, of "min_pwm_off 1 + 1" "powers_off 1 2" 13] zero(2)
    by (simp add: example_downloaded min_pwm_off_def fan_properties_off_def powers_off_def
        fan_ctrl_off_def crc_off_def)
  have pct: "d5next_pwm_to_percent 128 = 5020"
    by (simp add: d5next_pwm_to_percent_def DIV_ROUND_CLOSEST_def c_div_def)
  have be0: "get_unaligned_be16 0 0 = 0"
    by (simp add: get_unaligned_be16_def)
  show ?thesis
    unfolding st by (simp only: off up tgt m0 m1 pct be0 simp_thms)
qed

section \<open>The temperature store at the ends of the range of long\<close>

text \<open>
  Away from the ends of the range the rounding in \<open>d5next_set_auto_temp\<close> is the exact
  one; at \<open>LONG_MAX\<close> and \<open>LONG_MIN\<close> the sum wraps, and the 16 bits stored are 0x3334 and
  0xCCCC.
\<close>

lemma DIV_ROUND_CLOSEST_long_exact:
  assumes "- (2 ^ 63) + 5 \<le> x" and "x < 2 ^ 63 - 5"
  shows "DIV_ROUND_CLOSEST_long x 10 = DIV_ROUND_CLOSEST x 10"
proof -
  have "- (2 ^ 63) \<le> x + 5" "x + 5 < 2 ^ 63" "- (2 ^ 63) \<le> x - 5" "x - 5 < 2 ^ 63"
    using assms by linarith+
  then have "wrap_long (x + 5) = x + 5" "wrap_long (x - 5) = x - 5"
    unfolding wrap_long_def by (simp_all only: sint_word_of_int_ulong)
  then show ?thesis
    by (simp add: DIV_ROUND_CLOSEST_long_def DIV_ROUND_CLOSEST_def c_div_def)
qed

lemma DIV_ROUND_CLOSEST_long_wraps:
  "(word_of_int (DIV_ROUND_CLOSEST_long (2 ^ 63 - 1) 10) :: u16) = 0x3334"
  "(word_of_int (DIV_ROUND_CLOSEST_long (- (2 ^ 63)) 10) :: u16) = 0xCCCC"
proof -
  have "wrap_long (2 ^ 63 - 1 + 5) = - (2 ^ 63) + 4"
    unfolding wrap_long_def by (simp add: int_word_sint)
  then show "(word_of_int (DIV_ROUND_CLOSEST_long (2 ^ 63 - 1) 10) :: u16) = 0x3334"
    by (simp add: DIV_ROUND_CLOSEST_long_def c_div_def)
  have "wrap_long (- (2 ^ 63) - 5) = 2 ^ 63 - 5"
    unfolding wrap_long_def by (simp add: int_word_sint)
  then show "(word_of_int (DIV_ROUND_CLOSEST_long (- (2 ^ 63)) 10) :: u16) = 0xCCCC"
    by (simp add: DIV_ROUND_CLOSEST_long_def c_div_def)
qed

end
